theory Spec2Isabelle
  imports Complex_Main "HOL-Library.Word" "HOL-Library.Log_Nat"
begin

unbundle bit_operations_syntax

section \<open>Go values shared by the handlers\<close>

text \<open>
  Go's \<^verbatim>\<open>int\<close> is a 64-bit two's complement integer on the platforms the service is
  built for; it is read through \<open>sint\<close>. A Go \<^verbatim>\<open>error\<close> is a message, possibly wrapping
  another error (\<^verbatim>\<open>fmt.Errorf("...: %w", err)\<close>).
\<close>

type_synonym go_int = "64 word"

datatype go_error = Err string | Wrap string go_error

text \<open>Durations are counted in nanoseconds, as \<^verbatim>\<open>time.Duration\<close> does.\<close>

definition time_Second :: nat where
  "time_Second = 1000000000"

definition time_Minute :: nat where
  "time_Minute = 60 * time_Second"

text \<open>The status codes of \<^verbatim>\<open>net/http\<close> that the handlers use.\<close>

definition StatusOK :: nat where "StatusOK = 200"
definition StatusNoContent :: nat where "StatusNoContent = 204"
definition StatusBadRequest :: nat where "StatusBadRequest = 400"
definition StatusUnauthorized :: nat where "StatusUnauthorized = 401"
definition StatusForbidden :: nat where "StatusForbidden = 403"
definition StatusNotFound :: nat where "StatusNotFound = 404"
definition StatusInternalServerError :: nat where "StatusInternalServerError = 500"

section \<open>IEEE 754 binary64 arithmetic\<close>

text \<open>
  \<^verbatim>\<open>categorizeAspectRatio\<close> (src/video_utils.go, lines 61-82) computes in \<^verbatim>\<open>float64\<close>.
  A finite binary64 value is represented by the rational number it denotes, and every
  operation rounds the exact result to the nearest value with a 53-bit significand, ties to
  even. The exponent range is not bounded below or above in \<open>fl\<close>: the values met here
  (quotients of two non-zero 64-bit integers, and the four thresholds) have magnitudes
  between \<open>2 powi (-63)\<close> and \<open>2 powi 63\<close>, far inside the normal range of binary64, so no
  overflow, underflow or subnormal value arises.
\<close>

definition round_even :: "rat \<Rightarrow> int" where
  "round_even x =
     (let f = \<lfloor>x\<rfloor>; d = x - of_int f
      in if d < 1 / 2 then f else if 1 / 2 < d then f + 1 else if even f then f else f + 1)"

text \<open>\<open>expo x\<close> is the binary exponent of a positive \<open>x\<close>: \<open>2 powi expo x \<le> x < 2 powi (expo x + 1)\<close>.\<close>

definition expo :: "rat \<Rightarrow> int" where
  "expo x = (if 1 \<le> x then bitlen \<lfloor>x\<rfloor> - 1 else - bitlen (\<lceil>1 / x\<rceil> - 1))"

definition fl :: "rat \<Rightarrow> rat" where
  "fl x =
     (if x = 0 then 0
      else let e = expo \<bar>x\<bar> - 52
           in sgn x * (of_int (round_even (\<bar>x\<bar> / 2 powi e)) * 2 powi e))"

text \<open>
  The quotient of two finite values may be infinite or not a number (division by zero
  does not panic on \<^verbatim>\<open>float64\<close>), so the ratio has the full type.
\<close>

datatype float64 = Finite rat | PosInf | NegInf | NaN

text \<open>\<^verbatim>\<open>float64(n)\<close> for an \<^verbatim>\<open>int\<close>.\<close>

definition float64_of_int :: "go_int \<Rightarrow> rat" where
  "float64_of_int n = fl (of_int (sint n))"

definition f64_div :: "rat \<Rightarrow> rat \<Rightarrow> float64" where
  "f64_div a b =
     (if b = 0 then (if a = 0 then NaN else if 0 < a then PosInf else NegInf)
      else Finite (fl (a / b)))"

text \<open>\<^verbatim>\<open>ratio >= b\<close> and \<^verbatim>\<open>ratio <= b\<close> against a finite bound; every comparison with NaN is false.\<close>

fun f64_ge :: "float64 \<Rightarrow> rat \<Rightarrow> bool" where
  "f64_ge (Finite a) b = (b \<le> a)"
| "f64_ge PosInf b = True"
| "f64_ge NegInf b = False"
| "f64_ge NaN b = False"

fun f64_le :: "float64 \<Rightarrow> rat \<Rightarrow> bool" where
  "f64_le (Finite a) b = (a \<le> b)"
| "f64_le PosInf b = False"
| "f64_le NegInf b = True"
| "f64_le NaN b = False"

section \<open>Media prober (src/video_utils.go)\<close>

text \<open>
  The constants of lines 66-68. \<^verbatim>\<open>16.0 / 9.0\<close> and \<^verbatim>\<open>9.0 / 16.0\<close> are exact constant
  expressions, rounded once when they become \<^verbatim>\<open>float64\<close> variables; \<^verbatim>\<open>0.1\<close> is rounded
  to the nearest binary64 value.
\<close>

definition landscapeTarget :: rat where
  "landscapeTarget = fl (16 / 9)"

definition portraitTarget :: rat where
  "portraitTarget = fl (9 / 16)"

definition tolerance :: rat where
  "tolerance = fl (1 / 10)"

text \<open>The two range checks of lines 71 and 76; the sums and differences are rounded.\<close>

definition in_landscape :: "float64 \<Rightarrow> bool" where
  "in_landscape ratio \<longleftrightarrow>
     f64_ge ratio (fl (landscapeTarget - tolerance)) \<and> f64_le ratio (fl (landscapeTarget + tolerance))"

definition in_portrait :: "float64 \<Rightarrow> bool" where
  "in_portrait ratio \<longleftrightarrow>
     f64_ge ratio (fl (portraitTarget - tolerance)) \<and> f64_le ratio (fl (portraitTarget + tolerance))"

definition aspect_ratio :: "go_int \<Rightarrow> go_int \<Rightarrow> float64" where
  "aspect_ratio width height = f64_div (float64_of_int width) (float64_of_int height)"

definition categorizeAspectRatio :: "go_int \<Rightarrow> go_int \<Rightarrow> string" where
  "categorizeAspectRatio width height =
     (let ratio = aspect_ratio width height
      in if in_landscape ratio then ''landscape''
         else if in_portrait ratio then ''portrait''
         else ''other'')"

text \<open>
  The same classifier with the portrait check first: the comparison object of the claim
  that the order of the two checks does not matter. It is not part of the program.
\<close>

definition categorize_portrait_first :: "go_int \<Rightarrow> go_int \<Rightarrow> string" where
  "categorize_portrait_first width height =
     (let ratio = aspect_ratio width height
      in if in_portrait ratio then ''portrait''
         else if in_landscape ratio then ''landscape''
         else ''other'')"

text \<open>
  \<^verbatim>\<open>FFProbeOutput\<close> (lines 11-16): the streams, each with a width and a height. What
  ffprobe printed is either not decodable into that struct, or a document whose streams may
  or may not carry the two keys; \<^verbatim>\<open>json.Unmarshal\<close> leaves the zero value in a field
  whose key is absent.
\<close>

record stream =
  Width :: go_int
  Height :: go_int

datatype json_stream = JsonStream (json_width: "go_int option") (json_height: "go_int option")

datatype ffprobe_stdout = Undecodable go_error | Document "json_stream list"

definition decode_stream :: "json_stream \<Rightarrow> stream" where
  "decode_stream s =
     \<lparr>Width = (case json_width s of None \<Rightarrow> 0 | Some n \<Rightarrow> n),
      Height = (case json_height s of None \<Rightarrow> 0 | Some n \<Rightarrow> n)\<rparr>"

definition json_Unmarshal :: "ffprobe_stdout \<Rightarrow> go_error + stream list" where
  "json_Unmarshal out =
     (case out of Undecodable err \<Rightarrow> Inl err | Document ss \<Rightarrow> Inr (map decode_stream ss))"

text \<open>
  \<^verbatim>\<open>getVideoAspectRatio\<close> (lines 18-59). Its first argument is the external inspector:
  for a path, either the error of \<^verbatim>\<open>cmd.Run\<close> or what the process wrote to its output.
\<close>

definition getVideoAspectRatio ::
    "(string \<Rightarrow> go_error + ffprobe_stdout) \<Rightarrow> string \<Rightarrow> go_error + string" where
  "getVideoAspectRatio ffprobe filePath =
     (case ffprobe filePath of
        Inl err \<Rightarrow> Inl (Wrap ''ffprobe failed'' err)
      | Inr out \<Rightarrow>
          (case json_Unmarshal out of
             Inl err \<Rightarrow> Inl (Wrap ''failed to parse ffprobe output'' err)
           | Inr streams \<Rightarrow>
               if length streams = 0 then Inr ''other''
               else let width = Width (streams ! 0); height = Height (streams ! 0)
                    in if width = 0 \<or> height = 0 then Inr ''other''
                       else Inr (categorizeAspectRatio width height)))"

section \<open>Library functions the handlers call\<close>

text \<open>
  \<^verbatim>\<open>strings.Split(s, sep)\<close> for a one-character separator: cut at the first separator,
  keep what stands before it, go on with what stands after it; the last piece is what is
  left when no separator remains. The result is never empty.
\<close>

function strings_Split :: "string \<Rightarrow> char \<Rightarrow> string list" where
  "strings_Split s sep =
     (case dropWhile (\<lambda>c. c \<noteq> sep) s of
        [] \<Rightarrow> [s]
      | _ # rest \<Rightarrow> takeWhile (\<lambda>c. c \<noteq> sep) s # strings_Split rest sep)"
  by pat_completeness auto
termination
proof (relation "measure (\<lambda>(s, sep). length s)")
  show "wf (measure (\<lambda>(s, sep). length s))" by simp
next
  fix s :: string and sep :: char and x21 :: char and x22 :: string
  assume "dropWhile (\<lambda>c. c \<noteq> sep) s = x21 # x22"
  then have "length (x21 # x22) \<le> length s"
    by (metis length_dropWhile_le)
  then show "((x22, sep), (s, sep)) \<in> measure (\<lambda>(s, sep). length s)" by simp
qed

text \<open>
  \<^verbatim>\<open>filepath.Join\<close> and \<^verbatim>\<open>filepath.Clean\<close> on slash-separated paths.
  \<^verbatim>\<open>Clean\<close> drops empty elements and \<open>.\<close> elements, lets a \<open>..\<close> element remove
  the element before it (a \<open>..\<close> that has nothing to remove stays in a relative path and
  is dropped in a rooted one), and returns \<open>.\<close> for an empty result. \<^verbatim>\<open>Join\<close> joins
  its elements from the first non-empty one with a slash and cleans the result.
\<close>

fun clean_elements :: "bool \<Rightarrow> string list \<Rightarrow> string list \<Rightarrow> string list" where
  "clean_elements rooted out [] = out"
| "clean_elements rooted out (c # cs) =
     (if c = [] \<or> c = ''.'' then clean_elements rooted out cs
      else if c = ''..'' then
        (if out \<noteq> [] \<and> last out \<noteq> ''..'' then clean_elements rooted (butlast out) cs
         else if rooted then clean_elements rooted out cs
         else clean_elements rooted (out @ [''..'']) cs)
      else clean_elements rooted (out @ [c]) cs)"

fun join_elements :: "string list \<Rightarrow> string" where
  "join_elements [] = []"
| "join_elements [c] = c"
| "join_elements (c # d # cs) = c @ ''/'' @ join_elements (d # cs)"

definition filepath_Clean :: "string \<Rightarrow> string" where
  "filepath_Clean path =
     (case path of
        [] \<Rightarrow> ''.''
      | first # _ \<Rightarrow>
          (let rooted = (first = CHR ''/'');
               out = clean_elements rooted [] (strings_Split path (CHR ''/''))
           in if rooted then ''/'' @ join_elements out
              else if out = [] then ''.''
              else join_elements out))"

definition filepath_Join :: "string \<Rightarrow> string \<Rightarrow> string" where
  "filepath_Join a b =
     (if a \<noteq> [] then filepath_Clean (a @ ''/'' @ b)
      else if b \<noteq> [] then filepath_Clean b
      else [])"

text \<open>
  \<^verbatim>\<open>base64.RawURLEncoding.EncodeToString\<close>: the URL-safe alphabet of RFC 4648, three
  bytes to four characters, no padding of a final group of one or two bytes.
\<close>

definition encodeURL :: string where
  "encodeURL = ''ABCDEFGHIJKLMNOPQRSTUVWXYZabcdefghijklmnopqrstuvwxyz0123456789-_''"

definition enc6 :: "64 word \<Rightarrow> char" where
  "enc6 v = encodeURL ! unat (v AND 0x3F)"

fun EncodeToString :: "8 word list \<Rightarrow> string" where
  "EncodeToString (b0 # b1 # b2 # rest) =
     (let v = push_bit 16 (ucast b0) OR push_bit 8 (ucast b1) OR ucast b2
      in [enc6 (drop_bit 18 v), enc6 (drop_bit 12 v), enc6 (drop_bit 6 v), enc6 v]
         @ EncodeToString rest)"
| "EncodeToString [b0, b1] =
     (let v = push_bit 16 (ucast b0) OR push_bit 8 (ucast b1)
      in [enc6 (drop_bit 18 v), enc6 (drop_bit 12 v), enc6 (drop_bit 6 v)])"
| "EncodeToString [b0] =
     (let v = push_bit 16 (ucast b0)
      in [enc6 (drop_bit 18 v), enc6 (drop_bit 12 v)])"
| "EncodeToString [] = []"

section \<open>Records, configuration and the world outside the process\<close>

text \<open>
  Modelled from the spec: \<^verbatim>\<open>database.Video\<close> is declared in the package
  \<^verbatim>\<open>internal/database\<close>, which is not among the sources. The spec's data model gives a
  video record an identifier, an owning user, a nullable thumbnail reference, a nullable video
  reference and the two timestamps; the handlers read and write exactly these fields.
\<close>

record video =
  ID :: string
  UserID :: string
  ThumbnailURL :: "string option"
  VideoURL :: "string option"
  CreatedAt :: nat
  UpdatedAt :: nat

text \<open>
  Modelled from the spec: \<^verbatim>\<open>apiConfig\<close> is declared in a file that is not among the
  sources. The spec's shared configuration object holds the bucket name among the store
  clients and secrets; the record has the fields the handlers read.
\<close>

record apiConfig =
  s3Bucket :: string
  s3Region :: string
  assetsRoot :: string
  port :: string

text \<open>
  What a handler does to its surroundings, in the order it does it: the files it creates,
  writes, closes and removes on the local disk, the external remux process, the requests to
  the object store, the pauses, the write to the metadata store.
\<close>

datatype event =
    FileCreated string
  | FileWritten string
  | FileClosed string
  | FileRemoved string
  | FfmpegRun string string
  | FileOpened string
  | SeekStart string
  | PutObject string string string
  | Sleep nat
  | UpdateVideo video
  | DeleteVideo string
  | PresignGetObject string string nat

record world =
  disk :: "string set"
  trace :: "event list"

definition emit :: "event \<Rightarrow> world \<Rightarrow> world" where
  "emit e w = w\<lparr>trace := trace w @ [e]\<rparr>"

definition os_Create :: "string \<Rightarrow> world \<Rightarrow> world" where
  "os_Create p w = emit (FileCreated p) (w\<lparr>disk := insert p (disk w)\<rparr>)"

definition os_Remove :: "string \<Rightarrow> world \<Rightarrow> world" where
  "os_Remove p w = emit (FileRemoved p) (w\<lparr>disk := disk w - {p}\<rparr>)"

definition file_Close :: "string \<Rightarrow> world \<Rightarrow> world" where
  "file_Close p w = emit (FileClosed p) w"

text \<open>
  The outcome of the external remux process: it succeeds and its output file exists, or it
  exits with an error, having left an output file behind or not.
\<close>

datatype ffmpeg_outcome = FfmpegOk | FfmpegFailed go_error bool

text \<open>
  Everything a request meets that the handler does not decide: the results of the
  collaborators (path parsing, Auth, Metadata Store, Object Store), of the operating
  system, of the external processes, of the random source and of the clock. The results of
  \<^verbatim>\<open>Seek\<close> and \<^verbatim>\<open>PutObject\<close> are given per attempt of the upload loop. The
  packages \<^verbatim>\<open>internal/auth\<close> and \<^verbatim>\<open>internal/database\<close> are not among the sources:
  what their functions return is a parameter here, as the spec treats them (collaborators
  with fixed contracts), and so is what the libraries and the external processes return.
  \<^verbatim>\<open>randRead\<close> gives the 32 bytes that \<^verbatim>\<open>rand.Read\<close> fills in.
\<close>

record env =
  uuid_Parse :: "go_error + string"
  GetBearerToken :: "go_error + string"
  ValidateJWT :: "string \<Rightarrow> go_error + string"
  GetVideo :: "string \<Rightarrow> go_error + video"
  ParseMultipartForm :: "go_error option"
  FormFile :: "go_error + string"
  ParseMediaType :: "string \<Rightarrow> go_error + string"
  CreateTemp :: "go_error + string"
  osCreate :: "go_error option"
  ioCopy :: "go_error option"
  ffmpeg :: "string \<Rightarrow> string \<Rightarrow> ffmpeg_outcome"
  osOpen :: "go_error option"
  randRead :: "go_error + 8 word list"
  ffprobe :: "string \<Rightarrow> go_error + ffprobe_stdout"
  Seek :: "nat \<Rightarrow> go_error option"
  S3PutObject :: "nat \<Rightarrow> go_error option"
  dbUpdateVideo :: "go_error option"
  dbDeleteVideo :: "go_error option"
  PresignGet :: "string \<Rightarrow> string \<Rightarrow> go_error + string"
  timeNow :: nat

text \<open>
  Modelled from the spec: \<^verbatim>\<open>respondWithError(w, code, msg, err)\<close> and
  \<^verbatim>\<open>respondWithJSON(w, code, payload)\<close> are defined in a file that is not among the
  sources. By the spec a failure is answered with a status category, a message and the
  wrapped cause, and a success with the record; the answer of a handler is recorded as the
  call it made; \<^verbatim>\<open>w.WriteHeader(code)\<close> is the third way to answer.
\<close>

datatype response =
    RespondWithError nat string "go_error option"
  | RespondWithJSON nat video
  | WriteHeader nat

section \<open>Signed-URL resolver\<close>

text \<open>\<^verbatim>\<open>generatePresignedURL\<close> (src/unnamed/part_000, lines 12-27).\<close>

definition generatePresignedURL ::
    "env \<Rightarrow> string \<Rightarrow> string \<Rightarrow> nat \<Rightarrow> world \<Rightarrow> (go_error + string) \<times> world" where
  "generatePresignedURL e bucket key expireTime w =
     (let w1 = emit (PresignGetObject bucket key expireTime) w
      in case PresignGet e bucket key of
           Inl err \<Rightarrow> (Inl (Wrap ''failed to generate presigned URL'' err), w1)
         | Inr url \<Rightarrow> (Inr url, w1))"

text \<open>
  \<^verbatim>\<open>dbVideoToSignedVideo\<close> (src/unnamed/part_002, lines 146-170). It returns the video
  and the error, as the Go function does.
\<close>

definition dbVideoToSignedVideo :: "env \<Rightarrow> video \<Rightarrow> world \<Rightarrow> (video \<times> go_error option) \<times> world" where
  "dbVideoToSignedVideo e v w =
     (case VideoURL v of
        None \<Rightarrow> ((v, None), w)
      | Some url \<Rightarrow>
          if url = [] then ((v, None), w)
          else let parts = strings_Split url (CHR '','')
               in if length parts \<noteq> 2
                  then ((v, Some (Err (''invalid bucket/key format: '' @ url))), w)
                  else let bucket = parts ! 0; key = parts ! 1
                       in (case generatePresignedURL e bucket key (15 * time_Minute) w of
                             (Inl err, w1) \<Rightarrow> ((v, Some err), w1)
                           | (Inr presignedURL, w1) \<Rightarrow>
                               ((v\<lparr>VideoURL := Some presignedURL\<rparr>, None), w1)))"

section \<open>Fast-start rewriter and upload loop\<close>

text \<open>
  \<^verbatim>\<open>processVideoForFastStart\<close> (src/video_utils.go, lines 117-137): the output path is
  the input path with a fixed suffix; the path is returned only when the process succeeded.
\<close>

definition processVideoForFastStart :: "env \<Rightarrow> string \<Rightarrow> world \<Rightarrow> (go_error + string) \<times> world" where
  "processVideoForFastStart e inputPath w =
     (let outputPath = inputPath @ ''.processing'';
          w1 = emit (FfmpegRun inputPath outputPath) w
      in case ffmpeg e inputPath outputPath of
           FfmpegOk \<Rightarrow> (Inr outputPath, w1\<lparr>disk := insert outputPath (disk w1)\<rparr>)
         | FfmpegFailed err left \<Rightarrow>
             (Inl (Wrap ''ffmpeg faststart failed'' err),
              if left then w1\<lparr>disk := insert outputPath (disk w1)\<rparr> else w1))"

text \<open>
  The retry loop of \<^verbatim>\<open>handlerUploadVideo\<close> (src/unnamed/part_001, lines 150-177), with
  its variables \<^verbatim>\<open>attempt\<close> and \<^verbatim>\<open>uploadErr\<close> as arguments. The message printed
  after a failed attempt is not part of the model.
\<close>

function uploadLoop ::
    "env \<Rightarrow> string \<Rightarrow> string \<Rightarrow> string \<Rightarrow> nat \<Rightarrow> nat \<Rightarrow> go_error option \<Rightarrow> world
      \<Rightarrow> go_error option \<times> world" where
  "uploadLoop e path bucket fileKey maxRetries attempt uploadErr w =
     (if attempt \<le> maxRetries then
        (let w1 = emit (SeekStart path) w
         in case Seek e attempt of
              Some seekErr \<Rightarrow> (Some seekErr, w1)
            | None \<Rightarrow>
                (let w2 = emit (PutObject bucket fileKey ''video/mp4'') w1
                 in case S3PutObject e attempt of
                      None \<Rightarrow> (None, w2)
                    | Some err \<Rightarrow>
                        uploadLoop e path bucket fileKey maxRetries (attempt + 1) (Some err)
                          (if attempt < maxRetries
                           then emit (Sleep (time_Second * attempt)) w2 else w2)))
      else (uploadErr, w))"
  by pat_completeness auto
termination
  by (relation "measure (\<lambda>(e, path, bucket, fileKey, maxRetries, attempt, uploadErr, w).
        maxRetries + 1 - attempt)") auto

section \<open>Video ingest (src/unnamed/part_001)\<close>

text \<open>
  \<^verbatim>\<open>handlerUploadVideo\<close>, lines 20-207, cut where the handler registers a deferred call:
  each part below returns to the part that registered the deferred call, which runs it on
  every return of the inner part, so the deferred calls run last-registered first.

  Lines 179-206: the answer after the loop, the stored reference, the metadata write and
  the signed answer.
\<close>

definition publishVideo ::
    "apiConfig \<Rightarrow> env \<Rightarrow> video \<Rightarrow> string \<Rightarrow> go_error option \<Rightarrow> world \<Rightarrow> response \<times> world" where
  "publishVideo cfg e vid fileKey uploadErr w =
     (case uploadErr of
        Some err \<Rightarrow>
          (RespondWithError StatusInternalServerError ''Failed to upload to S3 after retries''
             (Some err), w)
      | None \<Rightarrow>
          (let videoURL = s3Bucket cfg @ '','' @ fileKey;
               updatedVideo = vid\<lparr>UpdatedAt := timeNow e, VideoURL := Some videoURL\<rparr>;
               w1 = emit (UpdateVideo updatedVideo) w
           in case dbUpdateVideo e of
                Some err \<Rightarrow>
                  (RespondWithError StatusInternalServerError ''Failed to update video''
                     (Some err), w1)
              | None \<Rightarrow>
                  (case dbVideoToSignedVideo e updatedVideo w1 of
                     ((signedVideo, Some err), w2) \<Rightarrow>
                       (RespondWithError StatusInternalServerError
                          ''Failed to generate signed URL'' (Some err), w2)
                   | ((signedVideo, None), w2) \<Rightarrow>
                       (RespondWithJSON StatusOK signedVideo, w2))))"

text \<open>Lines 124-177: the random key body, the classification, the key, the upload.\<close>

definition uploadProcessed ::
    "apiConfig \<Rightarrow> env \<Rightarrow> video \<Rightarrow> string \<Rightarrow> world \<Rightarrow> response \<times> world" where
  "uploadProcessed cfg e vid processedPath w =
     (case randRead e of
        Inl err \<Rightarrow>
          (RespondWithError StatusInternalServerError ''Failed to generate random filename''
             (Some err), w)
      | Inr randomBytes \<Rightarrow>
          (let randomString = EncodeToString randomBytes
           in case getVideoAspectRatio (ffprobe e) processedPath of
                Inl err \<Rightarrow>
                  (RespondWithError StatusInternalServerError ''Failed to analyze video''
                     (Some err), w)
              | Inr aspectRatio \<Rightarrow>
                  (let fileKey = aspectRatio @ ''/'' @ randomString @ ''.mp4'';
                       maxRetries = 3
                   in case uploadLoop e processedPath (s3Bucket cfg) fileKey maxRetries 1 None w of
                        (uploadErr, w1) \<Rightarrow> publishVideo cfg e vid fileKey uploadErr w1)))"

text \<open>
  Lines 116-122: the rewritten file is opened; \<^verbatim>\<open>defer processedFile.Close()\<close> is
  registered once it is open.
\<close>

definition openProcessed ::
    "apiConfig \<Rightarrow> env \<Rightarrow> video \<Rightarrow> string \<Rightarrow> world \<Rightarrow> response \<times> world" where
  "openProcessed cfg e vid processedPath w =
     (case osOpen e of
        Some err \<Rightarrow>
          (RespondWithError StatusInternalServerError ''Failed to open processed video''
             (Some err), w)
      | None \<Rightarrow>
          (case uploadProcessed cfg e vid processedPath (emit (FileOpened processedPath) w) of
             (resp, w1) \<Rightarrow> (resp, file_Close processedPath w1)))"

text \<open>
  Lines 97-114: the upload is copied into the temporary file, which is closed; the rewriter
  runs; \<^verbatim>\<open>defer os.Remove(processedPath)\<close> is registered when the rewriter returned no
  error, and not before.
\<close>

definition stageAndRewrite ::
    "apiConfig \<Rightarrow> env \<Rightarrow> video \<Rightarrow> string \<Rightarrow> world \<Rightarrow> response \<times> world" where
  "stageAndRewrite cfg e vid tempName w =
     (let w1 = emit (FileWritten tempName) w
      in case ioCopy e of
           Some err \<Rightarrow>
             (RespondWithError StatusInternalServerError ''Failed to save video to temp file''
                (Some err), w1)
         | None \<Rightarrow>
             (case processVideoForFastStart e tempName (file_Close tempName w1) of
                (Inl err, w2) \<Rightarrow>
                  (RespondWithError StatusInternalServerError
                     ''Failed to process video for fast start'' (Some err), w2)
              | (Inr processedPath, w2) \<Rightarrow>
                  (case openProcessed cfg e vid processedPath w2 of
                     (resp, w3) \<Rightarrow> (resp, os_Remove processedPath w3))))"

text \<open>
  Lines 20-95: identifier, token, metadata, ownership, form, content type, temporary file.
  \<^verbatim>\<open>defer os.Remove(tempFile.Name())\<close> and \<^verbatim>\<open>defer tempFile.Close()\<close> are
  registered once the temporary file exists. The body limit of line 59 and the deferred
  close of the in-memory form file leave no mark on the disk and are not part of the model.
\<close>

definition handlerUploadVideo :: "apiConfig \<Rightarrow> env \<Rightarrow> world \<Rightarrow> response \<times> world" where
  "handlerUploadVideo cfg e w =
     (case uuid_Parse e of
        Inl err \<Rightarrow> (RespondWithError StatusBadRequest ''Invalid ID'' (Some err), w)
      | Inr videoID \<Rightarrow>
     (case GetBearerToken e of
        Inl err \<Rightarrow> (RespondWithError StatusUnauthorized ''Couldn't find JWT'' (Some err), w)
      | Inr token \<Rightarrow>
     (case ValidateJWT e token of
        Inl err \<Rightarrow> (RespondWithError StatusUnauthorized ''Couldn't validate JWT'' (Some err), w)
      | Inr userID \<Rightarrow>
     (case GetVideo e videoID of
        Inl err \<Rightarrow> (RespondWithError StatusNotFound ''Video not found'' (Some err), w)
      | Inr vid \<Rightarrow>
     if UserID vid \<noteq> userID
     then (RespondWithError StatusUnauthorized ''User is not the video owner'' None, w)
     else
     (case ParseMultipartForm e of
        Some err \<Rightarrow> (RespondWithError StatusBadRequest ''Unable to parse form data'' (Some err), w)
      | None \<Rightarrow>
     (case FormFile e of
        Inl err \<Rightarrow> (RespondWithError StatusBadRequest ''Unable to get video file'' (Some err), w)
      | Inr contentType \<Rightarrow>
     (case ParseMediaType e contentType of
        Inl err \<Rightarrow> (RespondWithError StatusBadRequest ''Invalid content type'' (Some err), w)
      | Inr mediaType \<Rightarrow>
     if mediaType \<noteq> ''video/mp4''
     then (RespondWithError StatusBadRequest ''Only MP4 videos are allowed'' None, w)
     else
     (case CreateTemp e of
        Inl err \<Rightarrow>
          (RespondWithError StatusInternalServerError ''Failed to create temp file'' (Some err), w)
      | Inr tempName \<Rightarrow>
          (case stageAndRewrite cfg e vid tempName (os_Create tempName w) of
             (resp, w1) \<Rightarrow> (resp, os_Remove tempName (file_Close tempName w1)))))))))))"

section \<open>Thumbnail ingest (src/handler_upload_thumbnail.go)\<close>

text \<open>\<^verbatim>\<open>getFileExtension\<close>, lines 134-143.\<close>

definition getFileExtension :: "string \<Rightarrow> string" where
  "getFileExtension mediaType =
     (if mediaType = ''image/jpeg'' \<or> mediaType = ''image/jpg'' then ''.jpg''
      else if mediaType = ''image/png'' then ''.png''
      else ''.jpg'')"

text \<open>
  Lines 102-130, after the file is on the disk: metadata, ownership, the thumbnail URL, the
  metadata write.
\<close>

definition thumbnailPublish ::
    "apiConfig \<Rightarrow> env \<Rightarrow> string \<Rightarrow> string \<Rightarrow> string \<Rightarrow> world \<Rightarrow> response \<times> world" where
  "thumbnailPublish cfg e videoID userID filename w =
     (case GetVideo e videoID of
        Inl err \<Rightarrow> (RespondWithError StatusNotFound ''Video not found'' (Some err), w)
      | Inr vid \<Rightarrow>
          if UserID vid \<noteq> userID
          then (RespondWithError StatusUnauthorized ''User is not the video owner'' None, w)
          else
            (let thumbnailURL = ''http://localhost:'' @ port cfg @ ''/assets/'' @ filename;
                 updatedVideo = vid\<lparr>UpdatedAt := timeNow e, ThumbnailURL := Some thumbnailURL\<rparr>;
                 w1 = emit (UpdateVideo updatedVideo) w
             in case dbUpdateVideo e of
                  Some err \<Rightarrow>
                    (RespondWithError StatusInternalServerError ''Failed to update video''
                       (Some err), w1)
                | None \<Rightarrow> (RespondWithJSON StatusOK updatedVideo, w1)))"

text \<open>
  \<^verbatim>\<open>handlerUploadThumbnail\<close>, lines 18-131. \<^verbatim>\<open>defer outFile.Close()\<close> is
  registered once the file is created.
\<close>

definition handlerUploadThumbnail :: "apiConfig \<Rightarrow> env \<Rightarrow> world \<Rightarrow> response \<times> world" where
  "handlerUploadThumbnail cfg e w =
     (case uuid_Parse e of
        Inl err \<Rightarrow> (RespondWithError StatusBadRequest ''Invalid ID'' (Some err), w)
      | Inr videoID \<Rightarrow>
     (case GetBearerToken e of
        Inl err \<Rightarrow> (RespondWithError StatusUnauthorized ''Couldn't find JWT'' (Some err), w)
      | Inr token \<Rightarrow>
     (case ValidateJWT e token of
        Inl err \<Rightarrow> (RespondWithError StatusUnauthorized ''Couldn't validate JWT'' (Some err), w)
      | Inr userID \<Rightarrow>
     (case ParseMultipartForm e of
        Some err \<Rightarrow> (RespondWithError StatusBadRequest ''Unable to parse form data'' (Some err), w)
      | None \<Rightarrow>
     (case FormFile e of
        Inl err \<Rightarrow> (RespondWithError StatusBadRequest ''Unable to get form file'' (Some err), w)
      | Inr contentType \<Rightarrow>
     (case ParseMediaType e contentType of
        Inl err \<Rightarrow> (RespondWithError StatusBadRequest ''Invalid content type'' (Some err), w)
      | Inr mediaType \<Rightarrow>
     if mediaType \<noteq> ''image/jpeg'' \<and> mediaType \<noteq> ''image/png''
     then (RespondWithError StatusBadRequest ''Only JPEG and PNG images are allowed'' None, w)
     else
     (let fileExtension = getFileExtension mediaType
      in case randRead e of
           Inl err \<Rightarrow>
             (RespondWithError StatusInternalServerError ''Failed to generate random bytes''
                (Some err), w)
         | Inr randomBytes \<Rightarrow>
             (let randomString = EncodeToString randomBytes;
                  filename = randomString @ fileExtension;
                  filePath = filepath_Join (assetsRoot cfg) filename
              in case osCreate e of
                   Some err \<Rightarrow>
                     (RespondWithError StatusInternalServerError ''Failed to create file''
                        (Some err), w)
                 | None \<Rightarrow>
                     (let w1 = emit (FileWritten filePath) (os_Create filePath w)
                      in case (case ioCopy e of
                                 Some err \<Rightarrow>
                                   (RespondWithError StatusInternalServerError
                                      ''Failed to save file'' (Some err), w1)
                               | None \<Rightarrow> thumbnailPublish cfg e videoID userID filename w1) of
                           (resp, w2) \<Rightarrow> (resp, file_Close filePath w2))))))))))"

section \<open>Video deletion (src/unnamed/part_002)\<close>

text \<open>
  \<^verbatim>\<open>handlerVideoMetaDelete\<close>, lines 49-85: the handler of the repository that makes the
  same ownership check as the two upload handlers. The error it passes along with the
  refusal is the nil error of the metadata load that just succeeded.
\<close>

definition handlerVideoMetaDelete :: "apiConfig \<Rightarrow> env \<Rightarrow> world \<Rightarrow> response \<times> world" where
  "handlerVideoMetaDelete cfg e w =
     (case uuid_Parse e of
        Inl err \<Rightarrow> (RespondWithError StatusBadRequest ''Invalid ID'' (Some err), w)
      | Inr videoID \<Rightarrow>
     (case GetBearerToken e of
        Inl err \<Rightarrow> (RespondWithError StatusUnauthorized ''Couldn't find JWT'' (Some err), w)
      | Inr token \<Rightarrow>
     (case ValidateJWT e token of
        Inl err \<Rightarrow> (RespondWithError StatusUnauthorized ''Couldn't validate JWT'' (Some err), w)
      | Inr userID \<Rightarrow>
     (case GetVideo e videoID of
        Inl err \<Rightarrow> (RespondWithError StatusNotFound ''Couldn't get video'' (Some err), w)
      | Inr vid \<Rightarrow>
     if UserID vid \<noteq> userID
     then (RespondWithError StatusForbidden ''You can't delete this video'' None, w)
     else
     (let w1 = emit (DeleteVideo videoID) w
      in case dbDeleteVideo e of
           Some err \<Rightarrow>
             (RespondWithError StatusInternalServerError ''Couldn't delete video'' (Some err), w1)
         | None \<Rightarrow> (WriteHeader StatusNoContent, w1))))))"

section \<open>Reading a run, and the words of the spec\<close>

text \<open>The events a handler added to the trace of the world it started in.\<close>

definition events_since :: "world \<Rightarrow> world \<Rightarrow> event list" where
  "events_since w w' = drop (length (trace w)) (trace w')"

text \<open>
  A video record came out of the pipeline when its reference is the configured bucket, a
  comma, and a key made of a class, a slash, the encoded random bytes of the request and
  the suffix, and an upload to that bucket and key is among the events.
\<close>

definition stored_by_ingest :: "apiConfig \<Rightarrow> env \<Rightarrow> event list \<Rightarrow> video \<Rightarrow> bool" where
  "stored_by_ingest cfg e evs v \<longleftrightarrow>
     (\<exists>aspectRatio randomBytes.
        randRead e = Inr randomBytes \<and>
        aspectRatio \<in> {''landscape'', ''portrait'', ''other''} \<and>
        VideoURL v =
          Some (s3Bucket cfg @ '','' @ aspectRatio @ ''/'' @ EncodeToString randomBytes @ ''.mp4'') \<and>
        PutObject (s3Bucket cfg) (aspectRatio @ ''/'' @ EncodeToString randomBytes @ ''.mp4'')
          ''video/mp4'' \<in> set evs)"

text \<open>
  A run from \<open>w\<close> to \<open>w'\<close> only adds events, and every metadata write among them is of
  such a record.
\<close>

definition ingest_run :: "apiConfig \<Rightarrow> env \<Rightarrow> world \<Rightarrow> world \<Rightarrow> bool" where
  "ingest_run cfg e w w' \<longleftrightarrow>
     (\<exists>evs. trace w' = trace w @ evs \<and>
        (\<forall>v. UpdateVideo v \<in> set evs \<longrightarrow> stored_by_ingest cfg e evs v))"

text \<open>
  The spec's well-formed reference, in its own words: exactly two comma-separated
  components, both non-empty. It is the comparison object for the resolver's check.
\<close>

definition two_nonempty_components :: "string \<Rightarrow> bool" where
  "two_nonempty_components ref =
     (case strings_Split ref (CHR '','') of
        [bucket, key] \<Rightarrow> bucket \<noteq> [] \<and> key \<noteq> []
      | _ \<Rightarrow> False)"

text \<open>
  The spec's authorization-class failure. The spec keeps two categories apart:
  \<open>Unauthenticated\<close> (authentication, a missing or invalid token, status 401) and
  \<open>Forbidden\<close> (authorization, authenticated but not the owner, status 403).
\<close>

definition authorization_class :: "nat \<Rightarrow> bool" where
  "authorization_class code \<longleftrightarrow> code = StatusForbidden"

section \<open>Example requests\<close>

text \<open>
  A configuration, a stored video owned by the user \<open>alice\<close>, an empty disk, and a request
  by \<open>alice\<close> on which every collaborator succeeds: the uploaded file is a 1280 x 720 MP4
  and the 32 random bytes are all zero. The other examples change one answer of it.
\<close>

definition example_cfg :: apiConfig where
  "example_cfg =
     \<lparr>s3Bucket = ''tubely-bucket'', s3Region = ''us-east-2'', assetsRoot = ''./assets'',
      port = ''8091''\<rparr>"

definition example_video :: video where
  "example_video =
     \<lparr>ID = ''v1'', UserID = ''alice'', ThumbnailURL = None, VideoURL = None,
      CreatedAt = 0, UpdatedAt = 0\<rparr>"

definition empty_world :: world where
  "empty_world = \<lparr>disk = {}, trace = []\<rparr>"

definition example_presign :: "string \<Rightarrow> string \<Rightarrow> go_error + string" where
  "example_presign bucket key =
     Inr (''https://'' @ bucket @ ''.s3.amazonaws.com/'' @ key @ ''?X-Amz-Expires=900'')"

definition example_probe :: "string \<Rightarrow> go_error + ffprobe_stdout" where
  "example_probe p = Inr (Document [JsonStream (Some 1280) (Some 720)])"

definition always_ok :: "nat \<Rightarrow> go_error option" where
  "always_ok attempt = None"

definition always_failing :: "nat \<Rightarrow> go_error option" where
  "always_failing attempt =
     Some (Err (if attempt = 1 then ''timeout 1'' else if attempt = 2 then ''timeout 2''
                else ''timeout 3''))"

definition example_jwt :: "string \<Rightarrow> go_error + string" where
  "example_jwt token = Inr token"

definition example_db :: "string \<Rightarrow> go_error + video" where
  "example_db videoID = Inr example_video"

definition example_media_type :: "string \<Rightarrow> go_error + string" where
  "example_media_type contentType = Inr contentType"

definition ffmpeg_ok :: "string \<Rightarrow> string \<Rightarrow> ffmpeg_outcome" where
  "ffmpeg_ok inputPath outputPath = FfmpegOk"

definition ffmpeg_fails_leaving_output :: "string \<Rightarrow> string \<Rightarrow> ffmpeg_outcome" where
  "ffmpeg_fails_leaving_output inputPath outputPath = FfmpegFailed (Err ''exit status 1'') True"

definition example_env :: env where
  "example_env =
     \<lparr>uuid_Parse = Inr ''v1'',
      GetBearerToken = Inr ''alice'',
      ValidateJWT = example_jwt,
      GetVideo = example_db,
      ParseMultipartForm = None,
      FormFile = Inr ''video/mp4'',
      ParseMediaType = example_media_type,
      CreateTemp = Inr ''/tmp/tubely-upload-1.mp4'',
      osCreate = None,
      ioCopy = None,
      ffmpeg = ffmpeg_ok,
      osOpen = None,
      randRead = Inr (replicate 32 0),
      ffprobe = example_probe,
      Seek = always_ok,
      S3PutObject = always_ok,
      dbUpdateVideo = None,
      dbDeleteVideo = None,
      PresignGet = example_presign,
      timeNow = 1700000000\<rparr>"

section \<open>Properties of the rounding\<close>

lemma round_even_ge: "of_int n \<le> x \<Longrightarrow> n \<le> round_even x"
proof -
  assume "of_int n \<le> x"
  then have "n \<le> \<lfloor>x\<rfloor>" by (simp add: le_floor_iff)
  then show ?thesis unfolding round_even_def Let_def by auto
qed

lemma round_even_le: "x \<le> of_int n \<Longrightarrow> round_even x \<le> n"
proof -
  assume a: "x \<le> of_int n"
  have f: "\<lfloor>x\<rfloor> \<le> n" using a by (simp add: floor_le_iff) 
  show ?thesis
  proof (cases "\<lfloor>x\<rfloor> = n")
    case True
    then have "x = of_int n" using a
      by (metis floor_less_iff less_irrefl not_le_imp_less order_antisym)
    then show ?thesis by (simp add: round_even_def)
  next
    case False
    then have "\<lfloor>x\<rfloor> + 1 \<le> n" using f by simp
    then show ?thesis unfolding round_even_def Let_def using f by auto
  qed
qed

lemma round_even_of_int: "round_even (of_int n) = n"
  by (simp add: round_even_def)

lemma expo_bounds:
  assumes "0 < x"
  shows "2 powi (expo x) \<le> x \<and> x < 2 powi (expo x + 1)"
proof (cases "1 \<le> x")
  case True
  define f where "f = \<lfloor>x\<rfloor>"
  have f1: "1 \<le> f" using True by (simp add: f_def le_floor_iff)
  then have f0: "0 < f" by simp
  have e: "expo x = bitlen f - 1" using True by (simp add: expo_def f_def)
  have b: "2 ^ nat (bitlen f - 1) \<le> f" "f < 2 ^ nat (bitlen f)"
    using bitlen_bounds[OF f0] by auto
  have bl: "1 \<le> bitlen f" using f0 by (simp add: bitlen_alt_def)
  have "(2::rat) powi (bitlen f - 1) = of_int (2 ^ nat (bitlen f - 1))"
    using bl by (simp add: power_int_def)
  also have "\<dots> \<le> of_int f" using b(1) by (simp only: of_int_le_iff)
  also have "\<dots> \<le> x" by (simp add: f_def)
  finally have lo: "2 powi (expo x) \<le> x" by (simp add: e)
  have "f + 1 \<le> 2 ^ nat (bitlen f)" using b(2) by simp
  then have "(of_int (f + 1) :: rat) \<le> of_int (2 ^ nat (bitlen f))"
    by (simp only: of_int_le_iff)
  moreover have "x < of_int (f + 1)" unfolding f_def by linarith
  ultimately have "x < of_int (2 ^ nat (bitlen f))" by (metis less_le_trans)
  also have "\<dots> = 2 powi (bitlen f)" using bl by (simp add: power_int_def)
  finally have hi: "x < 2 powi (expo x + 1)" by (simp add: e)
  show ?thesis using lo hi by simp
next
  case False
  then have x1: "x < 1" by simp
  define y where "y = 1 / x"
  define c where "c = \<lceil>y\<rceil>"
  have y1: "1 < y" using x1 assms by (simp add: y_def)
  have c2: "2 \<le> c" using y1 unfolding c_def by linarith
  then have c0: "0 < c - 1" by simp
  have e: "expo x = - bitlen (c - 1)" using False by (simp add: expo_def c_def y_def)
  define n where "n = bitlen (c - 1)"
  have b: "2 ^ nat (n - 1) \<le> c - 1" "c - 1 < 2 ^ nat n"
    using bitlen_bounds[OF c0] by (auto simp: n_def)
  have n1: "1 \<le> n" using c0 by (simp add: bitlen_alt_def n_def)
  have "c \<le> 2 ^ nat n" using b(2) by simp
  then have "(of_int c :: rat) \<le> of_int (2 ^ nat n)" by (simp only: of_int_le_iff)
  then have "(of_int c :: rat) \<le> 2 ^ nat n" by simp
  moreover have "y \<le> of_int c" by (simp add: c_def)
  ultimately have yle: "y \<le> 2 ^ nat n" by linarith
  have "(of_int (2 ^ nat (n - 1)) :: rat) \<le> of_int (c - 1)" using b(1) by (simp only: of_int_le_iff)
  then have "(2 ^ nat (n - 1) :: rat) \<le> of_int (c - 1)" by simp
  moreover have "of_int (c - 1) < y" unfolding c_def by linarith
  ultimately have ygt: "2 ^ nat (n - 1) < y" by linarith
  have xy: "x = 1 / y" using assms by (simp add: y_def)
  have y0: "0 < y" using y1 by simp
  have e': "expo x = - n" using e by (simp only: n_def)
  have p1: "(2::rat) powi (- n) = 1 / 2 ^ nat n"
    using n1 by (simp only: power_int_minus_divide power_int_nonneg_exp)
  have "1 / (2::rat) ^ nat n \<le> 1 / y"
    by (rule frac_le) (use yle y0 in simp_all)
  then have "1 / (2::rat) ^ nat n \<le> x" by (simp only: xy)
  then have lo: "2 powi (expo x) \<le> x" by (simp only: e' p1)
  have n0: "0 \<le> n - 1" using n1 by simp
  have "- n + 1 = - (n - 1)" by simp
  then have p2: "(2::rat) powi (- n + 1) = 1 / 2 ^ nat (n - 1)"
    using n0 by (simp only: power_int_minus_divide power_int_nonneg_exp)
  have "1 / y < 1 / (2::rat) ^ nat (n - 1)"
    by (rule frac_less2) (use ygt in simp_all)
  then have "x < 1 / (2::rat) ^ nat (n - 1)" by (simp only: xy)
  then have hi: "x < 2 powi (expo x + 1)" by (simp only: e' p2)
  show ?thesis using lo hi by simp
qed

lemma pow2_mono: "a \<le> b \<Longrightarrow> (2::rat) powi a \<le> 2 powi b"
  by (rule power_int_increasing) simp_all

lemma pow2_strict: "(2::rat) powi a < 2 powi b \<Longrightarrow> a < b"
  by (metis pow2_mono not_le)

lemma expo_unique:
  assumes "0 < x" "2 powi e \<le> x" "x < 2 powi (e + 1)"
  shows "expo x = e"
proof -
  have b: "2 powi (expo x) \<le> x" "x < 2 powi (expo x + 1)" using expo_bounds[OF assms(1)] by auto
  have "(2::rat) powi e < 2 powi (expo x + 1)" using assms(2) b(2) by simp
  then have 1: "e < expo x + 1" by (rule pow2_strict)
  have "(2::rat) powi (expo x) < 2 powi (e + 1)" using assms(3) b(1) by simp
  then have 2: "expo x < e + 1" by (rule pow2_strict)
  show ?thesis using 1 2 by simp
qed

lemma expo_mono: "0 < x \<Longrightarrow> x \<le> y \<Longrightarrow> expo x \<le> expo y"
proof -
  assume a: "0 < x" "x \<le> y"
  then have y: "0 < y" by simp
  have "2 powi (expo x) \<le> x" using expo_bounds[OF a(1)] by simp
  also have "x \<le> y" by fact
  also have "y < 2 powi (expo y + 1)" using expo_bounds[OF y] by simp
  finally have "expo x < expo y + 1" by (rule pow2_strict)
  then show ?thesis by simp
qed

lemma round_even_floor_bounds: "\<lfloor>x\<rfloor> \<le> round_even x \<and> round_even x \<le> \<lfloor>x\<rfloor> + 1"
  unfolding round_even_def Let_def by auto

lemma round_even_mono:
  assumes "x \<le> y"
  shows "round_even x \<le> round_even y"
proof (cases "\<lfloor>x\<rfloor> = \<lfloor>y\<rfloor>")
  case True
  then have "x - of_int \<lfloor>x\<rfloor> \<le> y - of_int \<lfloor>y\<rfloor>" using assms by simp
  then show ?thesis unfolding round_even_def Let_def using True by auto
next
  case False
  have "\<lfloor>x\<rfloor> \<le> \<lfloor>y\<rfloor>" using assms by (rule floor_mono)
  then have "\<lfloor>x\<rfloor> + 1 \<le> \<lfloor>y\<rfloor>" using False by simp
  then show ?thesis
    using round_even_floor_bounds[of x] round_even_floor_bounds[of y] by linarith
qed

lemma scaled_bounds:
  assumes "0 < x"
  shows "2 ^ 52 \<le> x / 2 powi (expo x - 52) \<and> x / 2 powi (expo x - 52) < 2 ^ 53"
proof -
  have b: "2 powi (expo x) \<le> x" "x < 2 powi (expo x + 1)" using expo_bounds[OF assms] by auto
  have s1: "(2::rat) powi (expo x) = 2 ^ 52 * 2 powi (expo x - 52)"
    using power_int_add[of "2::rat" 52 "expo x - 52"] by simp
  have s2: "(2::rat) powi (expo x + 1) = 2 ^ 53 * 2 powi (expo x - 52)"
    using power_int_add[of "2::rat" 53 "expo x - 52"] by (simp add: add.commute)
  have "2 ^ 52 * 2 powi (expo x - 52) \<le> x" using b(1) s1 by simp
  then have lo: "2 ^ 52 \<le> x / 2 powi (expo x - 52)"
    by (simp add: pos_le_divide_eq)
  have "x < 2 ^ 53 * 2 powi (expo x - 52)" using b(2) s2 by simp
  then have hi: "x / 2 powi (expo x - 52) < 2 ^ 53"
    by (simp add: pos_divide_less_eq)
  show ?thesis using lo hi by simp
qed

lemma fl_pos_eq:
  "0 < x \<Longrightarrow> fl x = of_int (round_even (x / 2 powi (expo x - 52))) * 2 powi (expo x - 52)"
  by (simp add: fl_def Let_def)

lemma mant_bounds:
  assumes "0 < x"
  shows "2 ^ 52 \<le> round_even (x / 2 powi (expo x - 52))"
    and "round_even (x / 2 powi (expo x - 52)) \<le> 2 ^ 53"
proof -
  have b: "2 ^ 52 \<le> x / 2 powi (expo x - 52)" "x / 2 powi (expo x - 52) < 2 ^ 53"
    using scaled_bounds[OF assms] by auto
  have "of_int (2 ^ 52) \<le> x / 2 powi (expo x - 52)" using b(1) by simp
  then show "2 ^ 52 \<le> round_even (x / 2 powi (expo x - 52))" by (rule round_even_ge)
  have "x / 2 powi (expo x - 52) \<le> of_int (2 ^ 53)" using b(2) by simp
  then show "round_even (x / 2 powi (expo x - 52)) \<le> 2 ^ 53" by (rule round_even_le)
qed

lemma fl_mono:
  assumes "0 < x" "x \<le> y"
  shows "fl x \<le> fl y"
proof -
  have y0: "0 < y" using assms by simp
  define ex where "ex = expo x"
  define ey where "ey = expo y"
  define mx where "mx = round_even (x / 2 powi (ex - 52))"
  define my where "my = round_even (y / 2 powi (ey - 52))"
  have fx: "fl x = of_int mx * 2 powi (ex - 52)"
    using fl_pos_eq[OF assms(1)] by (simp add: mx_def ex_def)
  have fy: "fl y = of_int my * 2 powi (ey - 52)"
    using fl_pos_eq[OF y0] by (simp add: my_def ey_def)
  have le: "ex \<le> ey" unfolding ex_def ey_def using assms by (rule expo_mono)
  show ?thesis
  proof (cases "ex = ey")
    case True
    have "x / 2 powi (ex - 52) \<le> y / 2 powi (ex - 52)"
      using assms(2) by (simp add: divide_right_mono)
    then have "mx \<le> my" unfolding mx_def my_def True[symmetric] by (rule round_even_mono)
    then have "(of_int mx :: rat) \<le> of_int my" by simp
    then show ?thesis unfolding fx fy True[symmetric]
      by (simp add: mult_right_mono)
  next
    case False
    then have lt: "ex + 1 \<le> ey" using le by simp
    have "mx \<le> 2 ^ 53" unfolding mx_def ex_def using mant_bounds(2)[OF assms(1)] .
    then have "(of_int mx :: rat) \<le> of_int (2 ^ 53)" by (simp only: of_int_le_iff)
    then have "(of_int mx :: rat) \<le> 2 ^ 53" by simp
    then have "fl x \<le> 2 ^ 53 * 2 powi (ex - 52)" unfolding fx
      by (simp add: mult_right_mono)
    also have "\<dots> = 2 powi (ex + 1)"
      using power_int_add[of "2::rat" 53 "ex - 52"] by (simp add: add.commute)
    also have "\<dots> \<le> 2 powi ey" using lt by (rule pow2_mono)
    also have "\<dots> = 2 ^ 52 * 2 powi (ey - 52)"
      using power_int_add[of "2::rat" 52 "ey - 52"] by simp
    also have "\<dots> \<le> fl y"
    proof -
      have "2 ^ 52 \<le> my" unfolding my_def ey_def using mant_bounds(1)[OF y0] .
      then have "(of_int (2 ^ 52) :: rat) \<le> of_int my" by (simp only: of_int_le_iff)
      then have "(2 ^ 52 :: rat) \<le> of_int my" by simp
      then show ?thesis unfolding fy by (simp add: mult_right_mono)
    qed
    finally show ?thesis .
  qed
qed

lemma fl_of_int:
  assumes "0 < w" "w \<le> 2 ^ 53"
  shows "fl (of_int w) = of_int w"
proof -
  define x :: rat where "x = of_int w"
  have x0: "0 < x" using assms by (simp add: x_def)
  define e where "e = expo x"
  have b: "2 powi e \<le> x" "x < 2 powi (e + 1)" using expo_bounds[OF x0] by (auto simp: e_def)
  have "(1::rat) \<le> x" using assms(1) by (simp add: x_def)
  then have "(2::rat) powi 0 < 2 powi (e + 1)" using b(2) by simp
  then have e0: "0 \<le> e" using pow2_strict[of 0 "e + 1"] by simp
  have "x \<le> of_int (2 ^ 53)" unfolding x_def using assms(2) by (simp only: of_int_le_iff)
  then have "x \<le> 2 ^ 53" by simp
  moreover have "(2::rat) ^ 53 < 2 powi 54" by simp
  ultimately have "(2::rat) powi e < 2 powi 54" using b(1) by linarith
  then have e53: "e \<le> 53" using pow2_strict[of e 54] by simp
  show ?thesis
  proof (cases "e \<le> 52")
    case True
    define k where "k = nat (52 - e)"
    have pk: "(2::rat) powi (e - 52) = 1 / 2 ^ k"
    proof -
      have "e - 52 = - int k" using True by (simp add: k_def)
      then show ?thesis by (simp only: power_int_minus_divide power_int_of_nat)
    qed
    have "x / 2 powi (e - 52) = of_int (w * 2 ^ k)" by (simp add: pk x_def)
    then have "round_even (x / 2 powi (e - 52)) = w * 2 ^ k" by (simp only: round_even_of_int)
    then have "fl x = of_int (w * 2 ^ k) * 2 powi (e - 52)"
      using fl_pos_eq[OF x0] by (simp add: e_def)
    then show ?thesis by (simp add: pk x_def)
  next
    case False
    then have e: "e = 53" using e53 by simp
    have "2 ^ 53 \<le> x" using b(1) by (simp add: e)
    then have "(of_int (2 ^ 53) :: rat) \<le> of_int w" by (simp add: x_def)
    then have "2 ^ 53 \<le> w" by (simp only: of_int_le_iff)
    then have w: "w = 2 ^ 53" using assms(2) by simp
    have "x / 2 powi (e - 52) = of_int (2 ^ 52)" by (simp add: e x_def w)
    then have "round_even (x / 2 powi (e - 52)) = 2 ^ 52" by (simp only: round_even_of_int)
    then have "fl x = of_int (2 ^ 52) * 2 powi (e - 52)"
      using fl_pos_eq[OF x0] by (simp add: e_def)
    then show ?thesis by (simp add: e x_def w)
  qed
qed

section \<open>The thresholds of the classifier\<close>

text \<open>The four rounded thresholds, and how the exact edges of the windows round.\<close>

lemma landscape_lo: "fl (landscapeTarget - tolerance) = 3778019687405249 / 2251799813685248"
  by code_simp

lemma landscape_hi: "fl (landscapeTarget + tolerance) = 4228379650142299 / 2251799813685248"
  by code_simp

lemma portrait_lo: "fl (portraitTarget - tolerance) = 4165829655317709 / 9007199254740992"
  by code_simp

lemma portrait_hi: "fl (portraitTarget + tolerance) = 5967269506265907 / 9007199254740992"
  by code_simp

lemma landscape_lo_at_edge:
  "3778019687405249 / 2251799813685248 \<le> fl (151 / 90)"
  by code_simp

lemma landscape_lo_below_edge:
  "fl (151 / 90 - 1 / (90 * 2 ^ 44)) < 3778019687405249 / 2251799813685248"
  by code_simp

lemma landscape_hi_at_edge:
  "fl (169 / 90) \<le> 4228379650142299 / 2251799813685248"
  by code_simp

lemma landscape_hi_above_edge:
  "4228379650142299 / 2251799813685248 < fl (169 / 90 + 1 / (90 * 2 ^ 44))"
  by code_simp

lemma portrait_lo_at_edge:
  "4165829655317709 / 9007199254740992 \<le> fl (37 / 80)"
  by code_simp

lemma portrait_lo_below_edge:
  "fl (37 / 80 - 1 / (80 * 2 ^ 44)) < 4165829655317709 / 9007199254740992"
  by code_simp

lemma portrait_hi_at_edge:
  "fl (53 / 80) \<le> 5967269506265907 / 9007199254740992"
  by code_simp

lemma portrait_hi_above_edge:
  "5967269506265907 / 9007199254740992 < fl (53 / 80 + 1 / (80 * 2 ^ 44))"
  by code_simp

lemma frac_gap_lt:
  fixes a b p q B :: int
  assumes "0 < b" "b \<le> B" "0 < q" "(of_int a / of_int b :: rat) < of_int p / of_int q"
  shows "(of_int a / of_int b :: rat) \<le> of_int p / of_int q - 1 / (of_int q * of_int B)"
proof -
  have B0: "0 < B" using assms by simp
  have "(of_int a * of_int q :: rat) < of_int p * of_int b"
    using assms by (simp add: divide_simps mult.commute)
  then have "(of_int (a * q) :: rat) < of_int (p * b)" by simp
  then have "a * q < p * b" by (simp only: of_int_less_iff)
  then have "a * q + 1 \<le> p * b" by simp
  then have "(of_int (a * q + 1) :: rat) \<le> of_int (p * b)" by (simp only: of_int_le_iff)
  then have "(of_int a * of_int q + 1 :: rat) \<le> of_int p * of_int b" by simp
  then have 1: "(of_int a / of_int b :: rat) \<le> of_int p / of_int q - 1 / (of_int q * of_int b)"
    using assms(1,3) by (simp add: divide_simps algebra_simps)
  have "(1 :: rat) / (of_int q * of_int B) \<le> 1 / (of_int q * of_int b)"
    using assms(1,2,3) by (intro frac_le) (simp_all add: mult_left_mono)
  then show ?thesis using 1 by linarith
qed

lemma frac_gap_gt:
  fixes a b p q B :: int
  assumes "0 < b" "b \<le> B" "0 < q" "(of_int p / of_int q :: rat) < of_int a / of_int b"
  shows "(of_int p / of_int q :: rat) + 1 / (of_int q * of_int B) \<le> of_int a / of_int b"
proof -
  have B0: "0 < B" using assms by simp
  have "(of_int p * of_int b :: rat) < of_int a * of_int q"
    using assms by (simp add: divide_simps mult.commute)
  then have "(of_int (p * b) :: rat) < of_int (a * q)" by simp
  then have "p * b < a * q" by (simp only: of_int_less_iff)
  then have "p * b + 1 \<le> a * q" by simp
  then have "(of_int (p * b + 1) :: rat) \<le> of_int (a * q)" by (simp only: of_int_le_iff)
  then have "(of_int p * of_int b + 1 :: rat) \<le> of_int a * of_int q" by simp
  then have "(of_int p * of_int b + 1 :: rat) / (of_int q * of_int b)
      \<le> (of_int a * of_int q) / (of_int q * of_int b)"
    using assms(1,3) by (intro divide_right_mono) simp_all
  moreover have "(of_int p / of_int q :: rat) + 1 / (of_int q * of_int b)
      = (of_int p * of_int b + 1) / (of_int q * of_int b)"
    using assms(1,3) by (simp add: field_simps)
  moreover have "(of_int a * of_int q :: rat) / (of_int q * of_int b) = of_int a / of_int b"
    using assms(3) by simp
  ultimately have 1: "(of_int p / of_int q :: rat) + 1 / (of_int q * of_int b) \<le> of_int a / of_int b"
    by simp
  have "(1 :: rat) / (of_int q * of_int B) \<le> 1 / (of_int q * of_int b)"
    using assms(1,2,3) by (intro frac_le) (simp_all add: mult_left_mono)
  then show ?thesis using 1 by linarith
qed

lemma ratio_thresholds:
  fixes a b :: int
  assumes "0 < a" "0 < b" "b \<le> 2 ^ 44"
  defines "r \<equiv> (of_int a / of_int b :: rat)"
  shows "(fl (landscapeTarget - tolerance) \<le> fl r) = (151 / 90 \<le> r)"
    and "(fl r \<le> fl (landscapeTarget + tolerance)) = (r \<le> 169 / 90)"
    and "(fl (portraitTarget - tolerance) \<le> fl r) = (37 / 80 \<le> r)"
    and "(fl r \<le> fl (portraitTarget + tolerance)) = (r \<le> 53 / 80)"
proof -
  have r0: "0 < r" using assms by (simp add: r_def)
  have lt: "r \<le> of_int p / of_int q - 1 / (of_int q * of_int (2 ^ 44))"
    if "0 < q" "r < of_int p / of_int q" for p q :: int
    unfolding r_def using frac_gap_lt[OF assms(2) assms(3) that(1)] that(2) by (simp add: r_def)
  have gt: "of_int p / of_int q + 1 / (of_int q * of_int (2 ^ 44)) \<le> r"
    if "0 < q" "of_int p / of_int q < r" for p q :: int
    unfolding r_def using frac_gap_gt[OF assms(2) assms(3) that(1)] that(2) by (simp add: r_def)
  show "(fl (landscapeTarget - tolerance) \<le> fl r) = (151 / 90 \<le> r)"
  proof
    assume a: "fl (landscapeTarget - tolerance) \<le> fl r"
    show "151 / 90 \<le> r"
    proof (rule ccontr)
      assume "\<not> 151 / 90 \<le> r"
      then have "r < of_int 151 / of_int 90" by simp
      then have "r \<le> 151 / 90 - 1 / (90 * 2 ^ 44)" using lt[of 90 151] by simp
      then have "fl r \<le> fl (151 / 90 - 1 / (90 * 2 ^ 44))" using r0 by (rule fl_mono[rotated])
      then show False using a landscape_lo_below_edge by (simp only: landscape_lo)
    qed
  next
    assume "151 / 90 \<le> r"
    then have "fl (151 / 90) \<le> fl r" by (intro fl_mono) simp_all
    then show "fl (landscapeTarget - tolerance) \<le> fl r" using landscape_lo_at_edge by (simp only: landscape_lo)
  qed
  show "(fl r \<le> fl (landscapeTarget + tolerance)) = (r \<le> 169 / 90)"
  proof
    assume a: "fl r \<le> fl (landscapeTarget + tolerance)"
    show "r \<le> 169 / 90"
    proof (rule ccontr)
      assume "\<not> r \<le> 169 / 90"
      then have "of_int 169 / of_int 90 < r" by simp
      then have "169 / 90 + 1 / (90 * 2 ^ 44) \<le> r" using gt[of 90 169] by simp
      then have "fl (169 / 90 + 1 / (90 * 2 ^ 44)) \<le> fl r" by (intro fl_mono) simp_all
      then show False using a landscape_hi_above_edge by (simp only: landscape_hi)
    qed
  next
    assume "r \<le> 169 / 90"
    then have "fl r \<le> fl (169 / 90)" using r0 by (rule fl_mono[rotated])
    then show "fl r \<le> fl (landscapeTarget + tolerance)" using landscape_hi_at_edge by (simp only: landscape_hi)
  qed
  show "(fl (portraitTarget - tolerance) \<le> fl r) = (37 / 80 \<le> r)"
  proof
    assume a: "fl (portraitTarget - tolerance) \<le> fl r"
    show "37 / 80 \<le> r"
    proof (rule ccontr)
      assume "\<not> 37 / 80 \<le> r"
      then have "r < of_int 37 / of_int 80" by simp
      then have "r \<le> 37 / 80 - 1 / (80 * 2 ^ 44)" using lt[of 80 37] by simp
      then have "fl r \<le> fl (37 / 80 - 1 / (80 * 2 ^ 44))" using r0 by (rule fl_mono[rotated])
      then show False using a portrait_lo_below_edge by (simp only: portrait_lo)
    qed
  next
    assume "37 / 80 \<le> r"
    then have "fl (37 / 80) \<le> fl r" by (intro fl_mono) simp_all
    then show "fl (portraitTarget - tolerance) \<le> fl r" using portrait_lo_at_edge by (simp only: portrait_lo)
  qed
  show "(fl r \<le> fl (portraitTarget + tolerance)) = (r \<le> 53 / 80)"
  proof
    assume a: "fl r \<le> fl (portraitTarget + tolerance)"
    show "r \<le> 53 / 80"
    proof (rule ccontr)
      assume "\<not> r \<le> 53 / 80"
      then have "of_int 53 / of_int 80 < r" by simp
      then have "53 / 80 + 1 / (80 * 2 ^ 44) \<le> r" using gt[of 80 53] by simp
      then have "fl (53 / 80 + 1 / (80 * 2 ^ 44)) \<le> fl r" by (intro fl_mono) simp_all
      then show False using a portrait_hi_above_edge by (simp only: portrait_hi)
    qed
  next
    assume "r \<le> 53 / 80"
    then have "fl r \<le> fl (53 / 80)" using r0 by (rule fl_mono[rotated])
    then show "fl r \<le> fl (portraitTarget + tolerance)" using portrait_hi_at_edge by (simp only: portrait_hi)
  qed
qed

lemma categorize_rat_rule:
  assumes "0 < sint w" "sint w \<le> 2 ^ 44" "0 < sint h" "sint h \<le> 2 ^ 44"
  shows "categorizeAspectRatio w h =
     (let r = (of_int (sint w) / of_int (sint h) :: rat)
      in if 151 / 90 \<le> r \<and> r \<le> 169 / 90 then ''landscape''
         else if 37 / 80 \<le> r \<and> r \<le> 53 / 80 then ''portrait''
         else ''other'')"
proof -
  define a where "a = sint w"
  define b where "b = sint h"
  have a: "0 < a" "a \<le> 2 ^ 53" and b: "0 < b" "b \<le> 2 ^ 44" "b \<le> 2 ^ 53"
    using assms by (simp_all add: a_def b_def)
  have fw: "float64_of_int w = of_int a"
    unfolding float64_of_int_def a_def[symmetric] using a by (rule fl_of_int)
  have fh: "float64_of_int h = of_int b"
    unfolding float64_of_int_def b_def[symmetric] using b(1,3) by (rule fl_of_int)
  have h0: "(of_int b :: rat) \<noteq> 0" using b(1) by simp
  note t = ratio_thresholds[OF a(1) b(1) b(2)]
  show ?thesis
    unfolding categorizeAspectRatio_def aspect_ratio_def in_landscape_def in_portrait_def
      fw fh f64_div_def Let_def a_def[symmetric] b_def[symmetric]
    using h0 by (simp only: if_False f64_ge.simps f64_le.simps t)
qed

lemma abs_window: "(\<bar>x - c\<bar> \<le> (d::real)) = (c - d \<le> x \<and> x \<le> c + d)"
  by auto

lemma real_ratio_le:
  "((of_int p / of_int q :: rat) \<le> of_int a / of_int b)
     = ((of_int p / of_int q :: real) \<le> of_int a / of_int b)"
proof -
  have "((of_int p / of_int q :: rat) \<le> of_int a / of_int b)
      = ((of_rat (of_int p / of_int q) :: real) \<le> of_rat (of_int a / of_int b))"
    by (simp only: of_rat_less_eq)
  then show ?thesis by (simp add: of_rat_divide)
qed

lemma categorize_real_rule:
  assumes "0 < sint w" "sint w \<le> 2 ^ 44" "0 < sint h" "sint h \<le> 2 ^ 44"
  shows "categorizeAspectRatio w h =
     (let ratio = real_of_int (sint w) / real_of_int (sint h)
      in if \<bar>ratio - 16 / 9\<bar> \<le> 1 / 10 then ''landscape''
         else if \<bar>ratio - 9 / 16\<bar> \<le> 1 / 10 then ''portrait''
         else ''other'')"
proof -
  define a where "a = sint w"
  define b where "b = sint h"
  have 1: "((151 / 90 :: rat) \<le> of_int a / of_int b) = ((151 / 90 :: real) \<le> of_int a / of_int b)"
    using real_ratio_le[of 151 90 a b] by simp
  have 2: "((of_int a / of_int b :: rat) \<le> 169 / 90) = ((of_int a / of_int b :: real) \<le> 169 / 90)"
    using real_ratio_le[of a b 169 90] by simp
  have 3: "((37 / 80 :: rat) \<le> of_int a / of_int b) = ((37 / 80 :: real) \<le> of_int a / of_int b)"
    using real_ratio_le[of 37 80 a b] by simp
  have 4: "((of_int a / of_int b :: rat) \<le> 53 / 80) = ((of_int a / of_int b :: real) \<le> 53 / 80)"
    using real_ratio_le[of a b 53 80] by simp
  show ?thesis
    unfolding categorize_rat_rule[OF assms] Let_def abs_window a_def[symmetric] b_def[symmetric] 1 2 3 4
    by simp
qed

section \<open>Properties of the library functions and of the loop\<close>

text \<open>
  The defining equations of the two recursive functions are used by hand: each unfolds
  into itself.
\<close>

declare strings_Split.simps [simp del]
declare uploadLoop.simps [simp del]

lemma split_no_sep: "sep \<notin> set s \<Longrightarrow> strings_Split s sep = [s]"
proof -
  assume a: "sep \<notin> set s"
  then have d: "dropWhile (\<lambda>c. c \<noteq> sep) s = []" by (auto simp: dropWhile_eq_Nil_conv)
  show ?thesis by (subst strings_Split.simps) (simp only: d list.case)
qed

lemma split_at_first:
  assumes "sep \<notin> set b"
  shows "strings_Split (b @ sep # k) sep = b # strings_Split k sep"
proof -
  have d: "dropWhile (\<lambda>c. c \<noteq> sep) (b @ sep # k) = sep # k"
    using assms by (induction b) auto
  have t: "takeWhile (\<lambda>c. c \<noteq> sep) (b @ sep # k) = b"
    using assms by (induction b) auto
  show ?thesis by (subst strings_Split.simps) (simp add: d t)
qed

lemma count_takeWhile_sep: "count_list (takeWhile (\<lambda>c. c \<noteq> sep) s) sep = 0"
  by (induction s) auto

lemma split_length: "length (strings_Split s sep) = count_list s sep + 1"
proof (induction s sep rule: strings_Split.induct)
  case (1 s sep)
  show ?case
  proof (cases "dropWhile (\<lambda>c. c \<noteq> sep) s")
    case Nil
    then have "sep \<notin> set s" by (auto simp: dropWhile_eq_Nil_conv)
    then have "count_list s sep = 0" by (simp add: count_list_0_iff)
    moreover have "strings_Split s sep = [s]"
      by (subst strings_Split.simps) (simp only: Nil list.case)
    ultimately show ?thesis by simp
  next
    case (Cons x rest)
    have "\<not> (\<lambda>c. c \<noteq> sep) (hd (dropWhile (\<lambda>c. c \<noteq> sep) s))"
      by (rule hd_dropWhile) (simp only: Cons list.distinct not_False_eq_True)
    then have x: "x = sep" by (simp only: Cons list.sel not_not)
    have "takeWhile (\<lambda>c. c \<noteq> sep) s @ dropWhile (\<lambda>c. c \<noteq> sep) s = s"
      by (rule takeWhile_dropWhile_id)
    then have s: "takeWhile (\<lambda>c. c \<noteq> sep) s @ sep # rest = s"
      by (simp only: Cons x)
    have "count_list (takeWhile (\<lambda>c. c \<noteq> sep) s @ sep # rest) sep = count_list rest sep + 1"
      by (simp add: count_takeWhile_sep)
    then have c: "count_list s sep = count_list rest sep + 1"
      by (simp only: s)
    have "strings_Split s sep = takeWhile (\<lambda>c. c \<noteq> sep) s # strings_Split rest sep"
      by (subst strings_Split.simps) (simp only: Cons list.case)
    then have "length (strings_Split s sep) = length (strings_Split rest sep) + 1"
      by simp
    then show ?thesis using "1.IH"[OF Cons] c by simp
  qed
qed

lemma length_encodeURL: "length encodeURL = 64"
  by (simp add: encodeURL_def)

lemma enc6_in_alphabet: "enc6 v \<in> set encodeURL"
proof -
  have "v AND 0x3F \<le> 0x3F" by (rule word_and_le1)
  then have "unat (v AND 0x3F) \<le> unat (0x3F :: 64 word)" by (simp only: word_le_nat_alt)
  then have "unat (v AND 0x3F) < length encodeURL" by (simp add: length_encodeURL)
  then show ?thesis unfolding enc6_def by (rule nth_mem)
qed

lemma comma_not_in_alphabet: "CHR '','' \<notin> set encodeURL"
  by (simp add: encodeURL_def)

lemma EncodeToString_alphabet: "set (EncodeToString bs) \<subseteq> set encodeURL"
  by (induction bs rule: EncodeToString.induct) (simp_all add: Let_def enc6_in_alphabet)

lemma EncodeToString_no_comma: "CHR '','' \<notin> set (EncodeToString bs)"
  using EncodeToString_alphabet[of bs] comma_not_in_alphabet by blast

lemma getVideoAspectRatio_classes:
  "getVideoAspectRatio probe p = Inr a \<Longrightarrow> a \<in> {''landscape'', ''portrait'', ''other''}"
  by (auto simp: getVideoAspectRatio_def categorizeAspectRatio_def Let_def
      split: sum.splits if_splits)

lemma uploadLoop_exhausted: "uploadLoop e p b k 3 4 u w = (u, w)"
  by (subst uploadLoop.simps) simp

lemma uploadLoop_third:
  "uploadLoop e p b k 3 3 u w =
     (case Seek e 3 of
        Some seekErr \<Rightarrow> (Some seekErr, w\<lparr>trace := trace w @ [SeekStart p]\<rparr>)
      | None \<Rightarrow>
          (case S3PutObject e 3 of
             None \<Rightarrow> (None, w\<lparr>trace := trace w @ [SeekStart p, PutObject b k ''video/mp4'']\<rparr>)
           | Some err3 \<Rightarrow>
               (Some err3, w\<lparr>trace := trace w @ [SeekStart p, PutObject b k ''video/mp4'']\<rparr>)))"
  by (subst uploadLoop.simps) (simp add: uploadLoop_exhausted emit_def split: option.splits)

lemma uploadLoop_second:
  "uploadLoop e p b k 3 2 u w =
     (case Seek e 2 of
        Some seekErr \<Rightarrow> (Some seekErr, w\<lparr>trace := trace w @ [SeekStart p]\<rparr>)
      | None \<Rightarrow>
          (case S3PutObject e 2 of
             None \<Rightarrow> (None, w\<lparr>trace := trace w @ [SeekStart p, PutObject b k ''video/mp4'']\<rparr>)
           | Some err2 \<Rightarrow>
               uploadLoop e p b k 3 3 (Some err2)
                 (w\<lparr>trace := trace w @
                    [SeekStart p, PutObject b k ''video/mp4'', Sleep (2 * time_Second)]\<rparr>)))"
  by (subst uploadLoop.simps) (simp add: emit_def mult.commute split: option.splits)

lemma uploadLoop_first:
  "uploadLoop e p b k 3 1 u w =
     (case Seek e 1 of
        Some seekErr \<Rightarrow> (Some seekErr, w\<lparr>trace := trace w @ [SeekStart p]\<rparr>)
      | None \<Rightarrow>
          (case S3PutObject e 1 of
             None \<Rightarrow> (None, w\<lparr>trace := trace w @ [SeekStart p, PutObject b k ''video/mp4'']\<rparr>)
           | Some err1 \<Rightarrow>
               uploadLoop e p b k 3 2 (Some err1)
                 (w\<lparr>trace := trace w @
                    [SeekStart p, PutObject b k ''video/mp4'', Sleep (1 * time_Second)]\<rparr>)))"
  by (subst uploadLoop.simps) (simp add: emit_def one_add_one del: One_nat_def split: option.splits)

section \<open>Claims about the classifier and the prober\<close>

text \<open>
  C2, as amended. For every positive width and height up to \<open>2 ^ 44\<close> (every 32-bit
  value is in that range), the classifier returns what the rule over the real numbers
  returns: \<open>landscape\<close> when the real ratio width / height is within 0.1 of 16/9, else
  \<open>portrait\<close> when it is within 0.1 of 9/16, else \<open>other\<close>, both edges of both windows
  included; so a ratio of exactly 16/9 is \<open>landscape\<close>. The code computes the ratio and
  the four thresholds in binary64, and on this range the rounding never changes a comparison.
\<close>

theorem categorize_real_rule_bounded:
  assumes "0 < sint width" "sint width \<le> 2 ^ 44" "0 < sint height" "sint height \<le> 2 ^ 44"
  shows "categorizeAspectRatio width height =
     (let ratio = real_of_int (sint width) / real_of_int (sint height)
      in if \<bar>ratio - 16 / 9\<bar> \<le> 1 / 10 then ''landscape''
         else if \<bar>ratio - 9 / 16\<bar> \<le> 1 / 10 then ''portrait''
         else ''other'')"
  using assms by (rule categorize_real_rule)

text \<open>
  The theorem at 151 x 90, whose ratio lies exactly on the lower edge of the landscape
  window: the edge is included.
\<close>

theorem categorize_real_rule_bounded_witness:
  "0 < sint (151 :: go_int) \<and> sint (151 :: go_int) \<le> 2 ^ 44 \<and>
   0 < sint (90 :: go_int) \<and> sint (90 :: go_int) \<le> 2 ^ 44 \<and>
   \<bar>real_of_int (sint (151 :: go_int)) / real_of_int (sint (90 :: go_int)) - 16 / 9\<bar> = 1 / 10 \<and>
   categorizeAspectRatio 151 90 = ''landscape''"
  using categorize_real_rule_bounded[of 151 90] by simp

text \<open>
  C2 as stated, for every positive width and height, fails on 64-bit integers: at
  151000000000052 x 90000000000031 the real ratio is below 151/90, so it is more than 0.1
  away from 16/9, yet its binary64 quotient is not below the rounded threshold and the code
  answers \<open>landscape\<close>.
\<close>

theorem categorize_real_rule_counterexample:
  "0 < sint (151000000000052 :: go_int) \<and> 0 < sint (90000000000031 :: go_int) \<and>
   categorizeAspectRatio 151000000000052 90000000000031 = ''landscape'' \<and>
   \<not> \<bar>real_of_int (sint (151000000000052 :: go_int)) / real_of_int (sint (90000000000031 :: go_int))
        - 16 / 9\<bar> \<le> 1 / 10"
proof -
  have "categorizeAspectRatio 151000000000052 90000000000031 = ''landscape''"
    by code_simp
  then show ?thesis by simp
qed

text \<open>
  C6, as amended. The tolerance is the absolute number 0.1 on both targets, not a tenth of
  each target: for every positive width and height up to \<open>2 ^ 44\<close>, a ratio within 0.1
  of 16/9 (that is within 9/160, or 5.625 percent, of 16/9) is \<open>landscape\<close>, a ratio
  within 0.1 of 9/16 (that is within 8/45, about 17.8 percent, of 9/16) is \<open>portrait\<close>,
  and every other ratio is \<open>other\<close>.
\<close>

theorem categorize_absolute_tolerance:
  assumes "0 < sint width" "sint width \<le> 2 ^ 44" "0 < sint height" "sint height \<le> 2 ^ 44"
  shows "(\<bar>real_of_int (sint width) / real_of_int (sint height) - 16 / 9\<bar> \<le> 9 / 160 * (16 / 9)
            \<longrightarrow> categorizeAspectRatio width height = ''landscape'') \<and>
         (\<bar>real_of_int (sint width) / real_of_int (sint height) - 9 / 16\<bar> \<le> 8 / 45 * (9 / 16)
            \<longrightarrow> categorizeAspectRatio width height = ''portrait'') \<and>
         (\<not> \<bar>real_of_int (sint width) / real_of_int (sint height) - 16 / 9\<bar> \<le> 9 / 160 * (16 / 9) \<and>
          \<not> \<bar>real_of_int (sint width) / real_of_int (sint height) - 9 / 16\<bar> \<le> 8 / 45 * (9 / 16)
            \<longrightarrow> categorizeAspectRatio width height = ''other'')"
proof -
  define ratio where "ratio = real_of_int (sint width) / real_of_int (sint height)"
  have rule: "categorizeAspectRatio width height =
      (if \<bar>ratio - 16 / 9\<bar> \<le> 1 / 10 then ''landscape''
       else if \<bar>ratio - 9 / 16\<bar> \<le> 1 / 10 then ''portrait'' else ''other'')"
    using categorize_real_rule[OF assms] by (simp add: Let_def ratio_def)
  have apart: "\<bar>ratio - 9 / 16\<bar> \<le> 1 / 10 \<Longrightarrow> \<not> \<bar>ratio - 16 / 9\<bar> \<le> 1 / 10"
    by linarith
  show ?thesis
    unfolding ratio_def[symmetric] rule using apart by simp
qed

text \<open>
  The theorem at 13 x 20: the ratio 0.65 is further than a tenth of 9/16 from 9/16, and
  the code answers \<open>portrait\<close>.
\<close>

theorem categorize_absolute_tolerance_witness:
  "0 < sint (13 :: go_int) \<and> sint (13 :: go_int) \<le> 2 ^ 44 \<and>
   0 < sint (20 :: go_int) \<and> sint (20 :: go_int) \<le> 2 ^ 44 \<and>
   \<bar>real_of_int (sint (13 :: go_int)) / real_of_int (sint (20 :: go_int)) - 9 / 16\<bar> \<le> 8 / 45 * (9 / 16) \<and>
   \<not> \<bar>real_of_int (sint (13 :: go_int)) / real_of_int (sint (20 :: go_int)) - 9 / 16\<bar> \<le> 1 / 10 * (9 / 16) \<and>
   categorizeAspectRatio 13 20 = ''portrait''"
  using categorize_absolute_tolerance[of 13 20] by simp

text \<open>
  C6 as stated fails at 19 x 10: the ratio 1.9 is within a tenth of 16/9 from 16/9
  (0.1222 against 0.1778), and the code answers \<open>other\<close>.
\<close>

theorem ten_percent_counterexample:
  "0 < sint (19 :: go_int) \<and> 0 < sint (10 :: go_int) \<and>
   \<bar>real_of_int (sint (19 :: go_int)) / real_of_int (sint (10 :: go_int)) - 16 / 9\<bar> \<le> 1 / 10 * (16 / 9) \<and>
   categorizeAspectRatio 19 10 = ''other''"
proof -
  have "categorizeAspectRatio 19 10 = ''other''"
    by code_simp
  then show ?thesis by simp
qed

text \<open>The highest value of the portrait window is below the lowest of the landscape window.\<close>

lemma thresholds_apart: "fl (portraitTarget + tolerance) < fl (landscapeTarget - tolerance)"
  by (simp add: portrait_hi landscape_lo)

text \<open>
  C10. For every width and height (the positive ones among them), the two range checks
  of the code never hold together, the classifier with the portrait check first returns the
  same class, and the class is one of the three; the rounded thresholds the code compares
  against are apart, as the real windows [9/16 - 0.1, 9/16 + 0.1] and [16/9 - 0.1, 16/9 + 0.1]
  are.
\<close>

theorem windows_disjoint:
  "\<not> (in_landscape (aspect_ratio width height) \<and> in_portrait (aspect_ratio width height)) \<and>
   categorizeAspectRatio width height = categorize_portrait_first width height \<and>
   categorizeAspectRatio width height \<in> {''landscape'', ''portrait'', ''other''} \<and>
   fl (portraitTarget + tolerance) < fl (landscapeTarget - tolerance) \<and>
   (9 / 16 + 1 / 10 :: real) < 16 / 9 - 1 / 10"
proof -
  have d: "\<not> (in_landscape r \<and> in_portrait r)" for r
    using thresholds_apart unfolding in_landscape_def in_portrait_def
    by (cases r) auto
  show ?thesis
    using d[of "aspect_ratio width height"] thresholds_apart
    by (auto simp: categorizeAspectRatio_def categorize_portrait_first_def Let_def)
qed

text \<open>
  C8. When the inspector ran and its output was decoded, and it reports no stream, or the
  first stream it reports has a width or a height that is zero or absent, the prober returns
  the class \<open>other\<close> and no error.
\<close>

theorem getVideoAspectRatio_neutral:
  assumes "probe filePath = Inr (Document ss)"
    and "ss = [] \<or>
         (\<exists>s rest. ss = s # rest \<and>
            (json_width s = None \<or> json_width s = Some 0 \<or>
             json_height s = None \<or> json_height s = Some 0))"
  shows "getVideoAspectRatio probe filePath = Inr ''other''"
  using assms
  by (auto simp: getVideoAspectRatio_def json_Unmarshal_def decode_stream_def)

text \<open>
  The theorem on three outputs: no stream; a first stream without dimensions before a
  1280 x 720 stream; a first stream of height zero.
\<close>

theorem getVideoAspectRatio_neutral_witness:
  "getVideoAspectRatio (\<lambda>p. Inr (Document [])) ''/tmp/a.mp4.processing'' = Inr ''other'' \<and>
   getVideoAspectRatio (\<lambda>p. Inr (Document [JsonStream None None, JsonStream (Some 1280) (Some 720)]))
     ''/tmp/a.mp4.processing'' = Inr ''other'' \<and>
   getVideoAspectRatio (\<lambda>p. Inr (Document [JsonStream (Some 1280) (Some 0)]))
     ''/tmp/a.mp4.processing'' = Inr ''other''"
  using getVideoAspectRatio_neutral[of "\<lambda>p. Inr (Document [])" "''/tmp/a.mp4.processing''" "[]"]
    getVideoAspectRatio_neutral[of "\<lambda>p. Inr (Document [JsonStream None None, JsonStream (Some 1280) (Some 720)])"
      "''/tmp/a.mp4.processing''" "[JsonStream None None, JsonStream (Some 1280) (Some 720)]"]
    getVideoAspectRatio_neutral[of "\<lambda>p. Inr (Document [JsonStream (Some 1280) (Some 0)])"
      "''/tmp/a.mp4.processing''" "[JsonStream (Some 1280) (Some 0)]"]
  by simp

section \<open>Claims about the video ingest pipeline\<close>

text \<open>What the example request computes: its class and its random key body.\<close>

lemma example_classified: "categorizeAspectRatio 1280 720 = ''landscape''"
  by code_simp

lemma example_probe_landscape: "getVideoAspectRatio example_probe p = Inr ''landscape''"
  by (simp add: getVideoAspectRatio_def example_probe_def json_Unmarshal_def decode_stream_def
      example_classified)

lemma example_random_string:
  "EncodeToString (replicate 32 0) = ''AAAAAAAAAAAAAAAAAAAAAAAAAAAAAAAAAAAAAAAAAAA''"
  by code_simp

text \<open>
  C1. The retry loop, entered as the handler enters it (three attempts allowed, attempt 1,
  no error yet), for every behaviour of the file and of the object store. The file is
  repositioned before each attempt, the first included, and a failed repositioning ends the
  loop at once with that error; an attempt without error ends the loop at once; there is no
  pause before attempt 1, one second before attempt 2, two seconds before attempt 3, none
  after the third failed attempt; at most three uploads are tried. After the third failure
  the loop holds the error of the third attempt, and the handler answers with a server
  error that carries that error. The last part states that the handler runs exactly this
  loop once the random bytes and the classification are there.
\<close>

theorem upload_retry_policy:
  "(uploadLoop e p b k 3 1 None w =
     (case Seek e 1 of
        Some seekErr \<Rightarrow> (Some seekErr, w\<lparr>trace := trace w @ [SeekStart p]\<rparr>)
      | None \<Rightarrow>
     (case S3PutObject e 1 of
        None \<Rightarrow> (None, w\<lparr>trace := trace w @ [SeekStart p, PutObject b k ''video/mp4'']\<rparr>)
      | Some err1 \<Rightarrow>
     (case Seek e 2 of
        Some seekErr \<Rightarrow>
          (Some seekErr, w\<lparr>trace := trace w @
             [SeekStart p, PutObject b k ''video/mp4'', Sleep (1 * time_Second),
              SeekStart p]\<rparr>)
      | None \<Rightarrow>
     (case S3PutObject e 2 of
        None \<Rightarrow>
          (None, w\<lparr>trace := trace w @
             [SeekStart p, PutObject b k ''video/mp4'', Sleep (1 * time_Second),
              SeekStart p, PutObject b k ''video/mp4'']\<rparr>)
      | Some err2 \<Rightarrow>
     (case Seek e 3 of
        Some seekErr \<Rightarrow>
          (Some seekErr, w\<lparr>trace := trace w @
             [SeekStart p, PutObject b k ''video/mp4'', Sleep (1 * time_Second),
              SeekStart p, PutObject b k ''video/mp4'', Sleep (2 * time_Second),
              SeekStart p]\<rparr>)
      | None \<Rightarrow>
     (case S3PutObject e 3 of
        None \<Rightarrow>
          (None, w\<lparr>trace := trace w @
             [SeekStart p, PutObject b k ''video/mp4'', Sleep (1 * time_Second),
              SeekStart p, PutObject b k ''video/mp4'', Sleep (2 * time_Second),
              SeekStart p, PutObject b k ''video/mp4'']\<rparr>)
      | Some err3 \<Rightarrow>
          (Some err3, w\<lparr>trace := trace w @
             [SeekStart p, PutObject b k ''video/mp4'', Sleep (1 * time_Second),
              SeekStart p, PutObject b k ''video/mp4'', Sleep (2 * time_Second),
              SeekStart p, PutObject b k ''video/mp4'']\<rparr>)))))))) \<and>
   publishVideo cfg e vid k (Some err) w' =
     (RespondWithError StatusInternalServerError ''Failed to upload to S3 after retries''
        (Some err), w') \<and>
   (randRead e = Inr randomBytes \<and> getVideoAspectRatio (ffprobe e) p = Inr aspectRatio \<longrightarrow>
      uploadProcessed cfg e vid p w =
        (case uploadLoop e p (s3Bucket cfg)
                (aspectRatio @ ''/'' @ EncodeToString randomBytes @ ''.mp4'') 3 1 None w of
           (uploadErr, w1) \<Rightarrow>
             publishVideo cfg e vid
               (aspectRatio @ ''/'' @ EncodeToString randomBytes @ ''.mp4'') uploadErr w1))"
proof (intro conjI)
  show "uploadLoop e p b k 3 1 None w =
     (case Seek e 1 of
        Some seekErr \<Rightarrow> (Some seekErr, w\<lparr>trace := trace w @ [SeekStart p]\<rparr>)
      | None \<Rightarrow>
     (case S3PutObject e 1 of
        None \<Rightarrow> (None, w\<lparr>trace := trace w @ [SeekStart p, PutObject b k ''video/mp4'']\<rparr>)
      | Some err1 \<Rightarrow>
     (case Seek e 2 of
        Some seekErr \<Rightarrow>
          (Some seekErr, w\<lparr>trace := trace w @
             [SeekStart p, PutObject b k ''video/mp4'', Sleep (1 * time_Second),
              SeekStart p]\<rparr>)
      | None \<Rightarrow>
     (case S3PutObject e 2 of
        None \<Rightarrow>
          (None, w\<lparr>trace := trace w @
             [SeekStart p, PutObject b k ''video/mp4'', Sleep (1 * time_Second),
              SeekStart p, PutObject b k ''video/mp4'']\<rparr>)
      | Some err2 \<Rightarrow>
     (case Seek e 3 of
        Some seekErr \<Rightarrow>
          (Some seekErr, w\<lparr>trace := trace w @
             [SeekStart p, PutObject b k ''video/mp4'', Sleep (1 * time_Second),
              SeekStart p, PutObject b k ''video/mp4'', Sleep (2 * time_Second),
              SeekStart p]\<rparr>)
      | None \<Rightarrow>
     (case S3PutObject e 3 of
        None \<Rightarrow>
          (None, w\<lparr>trace := trace w @
             [SeekStart p, PutObject b k ''video/mp4'', Sleep (1 * time_Second),
              SeekStart p, PutObject b k ''video/mp4'', Sleep (2 * time_Second),
              SeekStart p, PutObject b k ''video/mp4'']\<rparr>)
      | Some err3 \<Rightarrow>
          (Some err3, w\<lparr>trace := trace w @
             [SeekStart p, PutObject b k ''video/mp4'', Sleep (1 * time_Second),
              SeekStart p, PutObject b k ''video/mp4'', Sleep (2 * time_Second),
              SeekStart p, PutObject b k ''video/mp4'']\<rparr>)))))))"
    by (simp add: uploadLoop_first uploadLoop_second uploadLoop_third del: One_nat_def
        split: option.splits)
  show "publishVideo cfg e vid k (Some err) w' =
     (RespondWithError StatusInternalServerError ''Failed to upload to S3 after retries''
        (Some err), w')"
    by (simp add: publishVideo_def)
  show "randRead e = Inr randomBytes \<and> getVideoAspectRatio (ffprobe e) p = Inr aspectRatio \<longrightarrow>
      uploadProcessed cfg e vid p w =
        (case uploadLoop e p (s3Bucket cfg)
                (aspectRatio @ ''/'' @ EncodeToString randomBytes @ ''.mp4'') 3 1 None w of
           (uploadErr, w1) \<Rightarrow>
             publishVideo cfg e vid
               (aspectRatio @ ''/'' @ EncodeToString randomBytes @ ''.mp4'') uploadErr w1)"
    by (simp add: uploadProcessed_def Let_def)
qed

text \<open>
  The theorem on the example request with an object store that fails every attempt: three
  repositionings, three uploads, pauses of one and two seconds, and the third error in the
  answer.
\<close>

theorem upload_retry_policy_witness:
  "uploadLoop (example_env\<lparr>S3PutObject := always_failing\<rparr>) ''/tmp/tubely-upload-1.mp4.processing''
      ''tubely-bucket'' ''landscape/AAAAAAAAAAAAAAAAAAAAAAAAAAAAAAAAAAAAAAAAAAA.mp4'' 3 1 None empty_world =
     (Some (Err ''timeout 3''),
      \<lparr>disk = {},
       trace =
         [SeekStart ''/tmp/tubely-upload-1.mp4.processing'',
          PutObject ''tubely-bucket'' ''landscape/AAAAAAAAAAAAAAAAAAAAAAAAAAAAAAAAAAAAAAAAAAA.mp4'' ''video/mp4'',
          Sleep 1000000000,
          SeekStart ''/tmp/tubely-upload-1.mp4.processing'',
          PutObject ''tubely-bucket'' ''landscape/AAAAAAAAAAAAAAAAAAAAAAAAAAAAAAAAAAAAAAAAAAA.mp4'' ''video/mp4'',
          Sleep 2000000000,
          SeekStart ''/tmp/tubely-upload-1.mp4.processing'',
          PutObject ''tubely-bucket'' ''landscape/AAAAAAAAAAAAAAAAAAAAAAAAAAAAAAAAAAAAAAAAAAA.mp4'' ''video/mp4'']\<rparr>) \<and>
   fst (uploadProcessed example_cfg (example_env\<lparr>S3PutObject := always_failing\<rparr>) example_video
          ''/tmp/tubely-upload-1.mp4.processing'' empty_world) =
     RespondWithError StatusInternalServerError ''Failed to upload to S3 after retries''
       (Some (Err ''timeout 3''))"
  using upload_retry_policy[where e = "example_env\<lparr>S3PutObject := always_failing\<rparr>"
      and p = "''/tmp/tubely-upload-1.mp4.processing''" and b = "''tubely-bucket''"
      and k = "''landscape/AAAAAAAAAAAAAAAAAAAAAAAAAAAAAAAAAAAAAAAAAAA.mp4''"
      and w = empty_world and cfg = example_cfg and vid = example_video
      and err = "Err ''timeout 3''"
      and randomBytes = "replicate 32 0" and aspectRatio = "''landscape''"]
  by (simp add: example_env_def example_cfg_def always_failing_def always_ok_def empty_world_def
      time_Second_def example_probe_landscape example_random_string)

section \<open>Claims about the signed-URL resolver\<close>

lemma events_since_emit: "events_since w (emit ev w) = [ev]"
  by (simp add: events_since_def emit_def)

lemma events_since_run:
  "trace w' = trace w @ evs \<Longrightarrow> events_since w w' = evs"
  by (simp add: events_since_def)

lemma split_bucket_key:
  assumes "CHR '','' \<notin> set bucket" "CHR '','' \<notin> set key"
  shows "strings_Split (bucket @ CHR '','' # key) (CHR '','') = [bucket, key]"
  using assms by (simp add: split_at_first split_no_sep)

text \<open>
  C3, as amended. For every video record whose video reference is neither null nor
  empty, resolution fails with the format error if and only if the reference does not hold
  exactly one comma, that is, does not split into exactly two comma-separated components;
  a component may be empty. When the reference is a bucket, one comma and a key, a presigned
  URL is requested for precisely that bucket and that key, with an expiry of 15 minutes.
\<close>

theorem resolver_reference_format:
  assumes "VideoURL v = Some ref" "ref \<noteq> []"
  shows "(snd (fst (dbVideoToSignedVideo e v w)) = Some (Err (''invalid bucket/key format: '' @ ref))
            \<longleftrightarrow> count_list ref (CHR '','') \<noteq> 1) \<and>
         (\<forall>bucket key.
            ref = bucket @ CHR '','' # key \<and> CHR '','' \<notin> set bucket \<and> CHR '','' \<notin> set key \<longrightarrow>
            events_since w (snd (dbVideoToSignedVideo e v w)) =
              [PresignGetObject bucket key (15 * time_Minute)])"
proof (intro conjI allI impI)
  have len: "length (strings_Split ref (CHR '','')) = count_list ref (CHR '','') + 1"
    by (rule split_length)
  show "snd (fst (dbVideoToSignedVideo e v w)) = Some (Err (''invalid bucket/key format: '' @ ref))
            \<longleftrightarrow> count_list ref (CHR '','') \<noteq> 1"
  proof (cases "count_list ref (CHR '','') = 1")
    case True
    then have "length (strings_Split ref (CHR '','')) = 2" using len by simp
    then show ?thesis
      using assms True
      by (simp add: dbVideoToSignedVideo_def generatePresignedURL_def Let_def
          split: sum.splits)
  next
    case False
    then have "length (strings_Split ref (CHR '','')) \<noteq> 2" using len by simp
    then show ?thesis
      using assms False by (simp add: dbVideoToSignedVideo_def Let_def)
  qed
next
  fix bucket key
  assume a: "ref = bucket @ CHR '','' # key \<and> CHR '','' \<notin> set bucket \<and> CHR '','' \<notin> set key"
  then have parts: "strings_Split ref (CHR '','') = [bucket, key]"
    by (simp add: split_bucket_key)
  show "events_since w (snd (dbVideoToSignedVideo e v w)) =
          [PresignGetObject bucket key (15 * time_Minute)]"
    using assms parts
    by (simp add: dbVideoToSignedVideo_def generatePresignedURL_def Let_def events_since_emit
        split: sum.splits)
qed

text \<open>
  The theorem on the stored reference \<open>bucket-x,key-y\<close>: no format error, and one
  request, for the bucket \<open>bucket-x\<close> and the key \<open>key-y\<close>.
\<close>

theorem resolver_reference_format_witness:
  "VideoURL (example_video\<lparr>VideoURL := Some ''bucket-x,key-y''\<rparr>) = Some ''bucket-x,key-y'' \<and>
   count_list ''bucket-x,key-y'' (CHR '','') = 1 \<and>
   snd (fst (dbVideoToSignedVideo example_env (example_video\<lparr>VideoURL := Some ''bucket-x,key-y''\<rparr>)
               empty_world))
     \<noteq> Some (Err (''invalid bucket/key format: '' @ ''bucket-x,key-y'')) \<and>
   events_since empty_world
       (snd (dbVideoToSignedVideo example_env (example_video\<lparr>VideoURL := Some ''bucket-x,key-y''\<rparr>)
               empty_world)) =
     [PresignGetObject ''bucket-x'' ''key-y'' (15 * time_Minute)]"
proof -
  have h1: "VideoURL (example_video\<lparr>VideoURL := Some ''bucket-x,key-y''\<rparr>) = Some ''bucket-x,key-y''"
    by simp
  have h2: "''bucket-x,key-y'' \<noteq> []" by simp
  note t = resolver_reference_format[OF h1 h2, of example_env empty_world]
  have c: "count_list ''bucket-x,key-y'' (CHR '','') = 1" by simp
  have 1: "snd (fst (dbVideoToSignedVideo example_env
                (example_video\<lparr>VideoURL := Some ''bucket-x,key-y''\<rparr>) empty_world))
     \<noteq> Some (Err (''invalid bucket/key format: '' @ ''bucket-x,key-y''))"
    using t[THEN conjunct1] c by simp
  have 2: "events_since empty_world
       (snd (dbVideoToSignedVideo example_env (example_video\<lparr>VideoURL := Some ''bucket-x,key-y''\<rparr>)
               empty_world)) =
     [PresignGetObject ''bucket-x'' ''key-y'' (15 * time_Minute)]"
    using t[THEN conjunct2, rule_format, of "''bucket-x''" "''key-y''"] by simp
  show ?thesis using h1 c 1 2 by simp
qed

text \<open>
  C3 as stated fails on the reference \<open>bucket-x,\<close>: it does not consist of two
  non-empty components, yet resolution does not fail with the format error; a URL is
  requested for the bucket \<open>bucket-x\<close> and the empty key.
\<close>

theorem resolver_empty_component_counterexample:
  "VideoURL (example_video\<lparr>VideoURL := Some ''bucket-x,''\<rparr>) = Some ''bucket-x,'' \<and>
   ''bucket-x,'' \<noteq> [] \<and>
   \<not> two_nonempty_components ''bucket-x,'' \<and>
   snd (fst (dbVideoToSignedVideo example_env (example_video\<lparr>VideoURL := Some ''bucket-x,''\<rparr>)
               empty_world)) = None \<and>
   events_since empty_world
       (snd (dbVideoToSignedVideo example_env (example_video\<lparr>VideoURL := Some ''bucket-x,''\<rparr>)
               empty_world)) =
     [PresignGetObject ''bucket-x'' [] (15 * time_Minute)]"
proof -
  have p: "strings_Split ''bucket-x,'' (CHR '','') = [''bucket-x'', []]"
    using split_bucket_key[of "''bucket-x''" "[]"] by simp
  show ?thesis
    by (simp add: two_nonempty_components_def p dbVideoToSignedVideo_def
        generatePresignedURL_def Let_def events_since_emit example_env_def example_presign_def)
qed

section \<open>Effects of the video ingest pipeline\<close>

text \<open>
  What each part of the handler does to the disk and to the trace, for every environment.
  The resolver on a reference made of a comma-free bucket, a comma and a comma-free key:
\<close>

lemma resolve_stored:
  assumes "VideoURL v = Some (bucket @ CHR '','' # key)"
    and "CHR '','' \<notin> set bucket" "CHR '','' \<notin> set key"
  shows "dbVideoToSignedVideo e v w =
     (case PresignGet e bucket key of
        Inl err \<Rightarrow>
          ((v, Some (Wrap ''failed to generate presigned URL'' err)),
           emit (PresignGetObject bucket key (15 * time_Minute)) w)
      | Inr url \<Rightarrow>
          ((v\<lparr>VideoURL := Some url\<rparr>, None),
           emit (PresignGetObject bucket key (15 * time_Minute)) w))"
  using assms
  by (simp add: dbVideoToSignedVideo_def generatePresignedURL_def Let_def split_bucket_key
      split: sum.splits)

lemma key_no_comma:
  assumes "aspectRatio \<in> {''landscape'', ''portrait'', ''other''}"
  shows "CHR '','' \<notin> set (aspectRatio @ ''/'' @ EncodeToString randomBytes @ ''.mp4'')"
  using assms EncodeToString_no_comma[of randomBytes] by auto

lemma publishVideo_stored:
  assumes "CHR '','' \<notin> set (s3Bucket cfg)" "CHR '','' \<notin> set key"
  shows "publishVideo cfg e vid key None w =
     (let updatedVideo = vid\<lparr>UpdatedAt := timeNow e, VideoURL := Some (s3Bucket cfg @ '','' @ key)\<rparr>;
          w1 = emit (UpdateVideo updatedVideo) w
      in case dbUpdateVideo e of
           Some err \<Rightarrow>
             (RespondWithError StatusInternalServerError ''Failed to update video'' (Some err), w1)
         | None \<Rightarrow>
             (case PresignGet e (s3Bucket cfg) key of
                Inl err \<Rightarrow>
                  (RespondWithError StatusInternalServerError ''Failed to generate signed URL''
                     (Some (Wrap ''failed to generate presigned URL'' err)),
                   emit (PresignGetObject (s3Bucket cfg) key (15 * time_Minute)) w1)
              | Inr url \<Rightarrow>
                  (RespondWithJSON StatusOK (updatedVideo\<lparr>VideoURL := Some url\<rparr>),
                   emit (PresignGetObject (s3Bucket cfg) key (15 * time_Minute)) w1)))"
proof -
  have r: "dbVideoToSignedVideo e
      (vid\<lparr>UpdatedAt := timeNow e, VideoURL := Some (s3Bucket cfg @ '','' @ key)\<rparr>) w' =
     (case PresignGet e (s3Bucket cfg) key of
        Inl err \<Rightarrow>
          ((vid\<lparr>UpdatedAt := timeNow e, VideoURL := Some (s3Bucket cfg @ '','' @ key)\<rparr>,
            Some (Wrap ''failed to generate presigned URL'' err)),
           emit (PresignGetObject (s3Bucket cfg) key (15 * time_Minute)) w')
      | Inr url \<Rightarrow>
          ((vid\<lparr>UpdatedAt := timeNow e, VideoURL := Some (s3Bucket cfg @ '','' @ key)\<rparr>
              \<lparr>VideoURL := Some url\<rparr>, None),
           emit (PresignGetObject (s3Bucket cfg) key (15 * time_Minute)) w'))" for w'
    using assms by (intro resolve_stored) simp_all
  show ?thesis
    unfolding publishVideo_def Let_def option.case r
    by (simp split: option.splits sum.splits)
qed

lemma uploadLoop_disk: "disk (snd (uploadLoop e p b k 3 1 None w)) = disk w"
  by (simp add: uploadLoop_first uploadLoop_second uploadLoop_third del: One_nat_def
      split: option.splits)

lemma stored_by_ingest_extend:
  "stored_by_ingest cfg e evs v \<Longrightarrow> stored_by_ingest cfg e (a @ evs @ b) v"
  by (auto simp: stored_by_ingest_def)

lemma uploadLoop_effects:
  "disk (snd (uploadLoop e p b k 3 1 None w)) = disk w \<and>
   (\<exists>evs. trace (snd (uploadLoop e p b k 3 1 None w)) = trace w @ evs \<and>
      (\<forall>v. UpdateVideo v \<notin> set evs) \<and>
      (fst (uploadLoop e p b k 3 1 None w) = None \<longrightarrow> PutObject b k ''video/mp4'' \<in> set evs))"
  by (simp add: uploadLoop_first uploadLoop_second uploadLoop_third del: One_nat_def
      split: option.splits)

lemma publishVideo_effects:
  assumes "CHR '','' \<notin> set (s3Bucket cfg)" "CHR '','' \<notin> set key"
  shows "disk (snd (publishVideo cfg e vid key uploadErr w)) = disk w \<and>
   (\<exists>evs. trace (snd (publishVideo cfg e vid key uploadErr w)) = trace w @ evs \<and>
      (\<forall>v. UpdateVideo v \<in> set evs \<longrightarrow>
         uploadErr = None \<and>
         v = vid\<lparr>UpdatedAt := timeNow e, VideoURL := Some (s3Bucket cfg @ '','' @ key)\<rparr>))"
proof (cases uploadErr)
  case None
  show ?thesis
    unfolding None publishVideo_stored[OF assms]
    by (simp add: Let_def emit_def split: option.splits sum.splits)
next
  case (Some err)
  then show ?thesis by (simp add: publishVideo_def)
qed

lemma uploadProcessed_effects:
  assumes "CHR '','' \<notin> set (s3Bucket cfg)"
  shows "disk (snd (uploadProcessed cfg e vid p w)) = disk w \<and>
   (\<exists>evs. trace (snd (uploadProcessed cfg e vid p w)) = trace w @ evs \<and>
      (\<forall>v. UpdateVideo v \<in> set evs \<longrightarrow> stored_by_ingest cfg e evs v))"
proof (cases "randRead e")
  case (Inl err)
  then show ?thesis by (simp add: uploadProcessed_def)
next
  case bytes: (Inr randomBytes)
  show ?thesis
  proof (cases "getVideoAspectRatio (ffprobe e) p")
    case (Inl err)
    then show ?thesis using bytes by (simp add: uploadProcessed_def)
  next
    case (Inr aspectRatio)
    define key where "key = aspectRatio @ ''/'' @ EncodeToString randomBytes @ ''.mp4''"
    define L where "L = uploadLoop e p (s3Bucket cfg) key 3 1 None w"
    have cls: "aspectRatio \<in> {''landscape'', ''portrait'', ''other''}"
      using Inr by (rule getVideoAspectRatio_classes)
    have nc: "CHR '','' \<notin> set key" unfolding key_def using cls by (rule key_no_comma)
    have up: "uploadProcessed cfg e vid p w = publishVideo cfg e vid key (fst L) (snd L)"
      using bytes Inr by (simp add: uploadProcessed_def Let_def key_def L_def split: prod.splits)
    obtain evs1 where l: "disk (snd L) = disk w" "trace (snd L) = trace w @ evs1"
        "\<forall>v. UpdateVideo v \<notin> set evs1"
        "fst L = None \<longrightarrow> PutObject (s3Bucket cfg) key ''video/mp4'' \<in> set evs1"
      using uploadLoop_effects[of e p "s3Bucket cfg" key w] unfolding L_def by auto
    obtain evs2 where q: "disk (snd (publishVideo cfg e vid key (fst L) (snd L))) = disk (snd L)"
        "trace (snd (publishVideo cfg e vid key (fst L) (snd L))) = trace (snd L) @ evs2"
        "\<forall>v. UpdateVideo v \<in> set evs2 \<longrightarrow>
           fst L = None \<and>
           v = vid\<lparr>UpdatedAt := timeNow e, VideoURL := Some (s3Bucket cfg @ '','' @ key)\<rparr>"
      using publishVideo_effects[OF assms nc, of e vid "fst L" "snd L"] by auto
    have good: "stored_by_ingest cfg e (evs1 @ evs2) v" if "UpdateVideo v \<in> set (evs1 @ evs2)" for v
    proof -
      from that l(3) have "UpdateVideo v \<in> set evs2" by simp
      with q(3) have n: "fst L = None"
        and v: "v = vid\<lparr>UpdatedAt := timeNow e, VideoURL := Some (s3Bucket cfg @ '','' @ key)\<rparr>"
        by blast+
      from n l(4) have "PutObject (s3Bucket cfg) key ''video/mp4'' \<in> set (evs1 @ evs2)" by simp
      then show ?thesis
        unfolding stored_by_ingest_def using bytes cls v
        by (intro exI[of _ aspectRatio] exI[of _ randomBytes]) (simp add: key_def)
    qed
    have "trace (snd (uploadProcessed cfg e vid p w)) = trace w @ (evs1 @ evs2)"
      unfolding up q(2) l(2) by simp
    moreover have "disk (snd (uploadProcessed cfg e vid p w)) = disk w"
      unfolding up q(1) l(1) ..
    ultimately show ?thesis using good by blast
  qed
qed

lemma ingest_run_refl: "ingest_run cfg e w w"
  by (simp add: ingest_run_def)

lemma ingest_run_wrap:
  assumes "ingest_run cfg e w1 w2"
    and "trace w1 = trace w @ a" "trace w3 = trace w2 @ b"
    and "\<forall>v. UpdateVideo v \<notin> set a" "\<forall>v. UpdateVideo v \<notin> set b"
  shows "ingest_run cfg e w w3"
proof -
  obtain evs where t: "trace w2 = trace w1 @ evs"
    and g: "\<forall>v. UpdateVideo v \<in> set evs \<longrightarrow> stored_by_ingest cfg e evs v"
    using assms(1) unfolding ingest_run_def by auto
  have "trace w3 = trace w @ (a @ evs @ b)" using assms(2,3) t by simp
  moreover have "stored_by_ingest cfg e (a @ evs @ b) v" if "UpdateVideo v \<in> set (a @ evs @ b)" for v
  proof -
    from that assms(4,5) have "UpdateVideo v \<in> set evs" by simp
    with g have "stored_by_ingest cfg e evs v" by blast
    then show ?thesis by (rule stored_by_ingest_extend)
  qed
  ultimately show ?thesis unfolding ingest_run_def by blast
qed

lemma dbVideoToSignedVideo_disk: "disk (snd (dbVideoToSignedVideo e v w)) = disk w"
  by (simp add: dbVideoToSignedVideo_def generatePresignedURL_def Let_def emit_def
      split: option.splits sum.splits)

lemma publishVideo_disk: "disk (snd (publishVideo cfg e vid key uploadErr w)) = disk w"
proof -
  have d: "disk (snd (dbVideoToSignedVideo e v (emit ev w))) = disk w" for v ev
    by (simp add: dbVideoToSignedVideo_disk emit_def)
  show ?thesis
    using d
    by (cases uploadErr; cases "dbUpdateVideo e")
      (auto simp: publishVideo_def Let_def emit_def case_prod_beta split: option.splits)
qed

lemma uploadProcessed_disk: "disk (snd (uploadProcessed cfg e vid p w)) = disk w"
  by (simp add: uploadProcessed_def Let_def case_prod_beta publishVideo_disk uploadLoop_disk
      del: One_nat_def split: sum.splits)

lemma openProcessed_disk: "disk (snd (openProcessed cfg e vid p w)) = disk w"
  by (simp add: openProcessed_def case_prod_beta uploadProcessed_disk file_Close_def emit_def
      split: option.splits)

lemma stageAndRewrite_disk:
  "disk (snd (stageAndRewrite cfg e vid t w)) =
      (case ioCopy e of
         Some err \<Rightarrow> disk w
       | None \<Rightarrow>
           (case ffmpeg e t (t @ ''.processing'') of
              FfmpegOk \<Rightarrow> disk w - {t @ ''.processing''}
            | FfmpegFailed err left \<Rightarrow>
                if left then insert (t @ ''.processing'') (disk w) else disk w))"
  by (simp add: stageAndRewrite_def processVideoForFastStart_def Let_def case_prod_beta
      openProcessed_disk os_Remove_def file_Close_def emit_def
      split: option.splits sum.splits ffmpeg_outcome.splits)

lemma uploadProcessed_run:
  assumes "CHR '','' \<notin> set (s3Bucket cfg)"
  shows "ingest_run cfg e w (snd (uploadProcessed cfg e vid p w))"
  using uploadProcessed_effects[OF assms, of e vid p w] by (simp add: ingest_run_def)

lemma openProcessed_run:
  assumes "CHR '','' \<notin> set (s3Bucket cfg)"
  shows "ingest_run cfg e w (snd (openProcessed cfg e vid p w))"
proof -
  define w1 where "w1 = emit (FileOpened p) w"
  define w2 where "w2 = snd (uploadProcessed cfg e vid p w1)"
  have r: "ingest_run cfg e w1 w2"
    unfolding w2_def using assms by (rule uploadProcessed_run)
  have "ingest_run cfg e w (file_Close p w2)"
    using r by (rule ingest_run_wrap[where a = "[FileOpened p]" and b = "[FileClosed p]"])
      (simp_all add: w1_def emit_def file_Close_def)
  then show ?thesis
    by (simp add: openProcessed_def ingest_run_refl w1_def w2_def case_prod_beta split: option.splits)
qed

lemma stageAndRewrite_run:
  assumes "CHR '','' \<notin> set (s3Bucket cfg)"
  shows "ingest_run cfg e w (snd (stageAndRewrite cfg e vid t w))"
proof -
  define p where "p = t @ ''.processing''"
  define w1 where "w1 = w\<lparr>trace := trace w @ [FileWritten t, FileClosed t, FfmpegRun t p],
      disk := insert p (disk w)\<rparr>"
  define w2 where "w2 = snd (openProcessed cfg e vid p w1)"
  have t1: "trace w1 = trace w @ [FileWritten t, FileClosed t, FfmpegRun t p]"
    by (simp add: w1_def)
  have r: "ingest_run cfg e w1 w2"
    unfolding w2_def using assms by (rule openProcessed_run)
  have ok: "ingest_run cfg e w (os_Remove p w2)"
    using r t1 by (rule ingest_run_wrap[where b = "[FileRemoved p]"])
      (simp_all add: os_Remove_def emit_def)
  have stop: "ingest_run cfg e w (w\<lparr>trace := trace w @ evs, disk := D\<rparr>)"
    if "\<forall>v. UpdateVideo v \<notin> set evs" for D evs
    using that by (simp add: ingest_run_def)
  have stop': "ingest_run cfg e w (w\<lparr>trace := trace w @ evs\<rparr>)"
    if "\<forall>v. UpdateVideo v \<notin> set evs" for evs
    using that by (simp add: ingest_run_def)
  have rewritten: "snd (stageAndRewrite cfg e vid t w) = os_Remove p w2"
    if "ioCopy e = None" "ffmpeg e t p = FfmpegOk"
    using that
    by (simp add: stageAndRewrite_def processVideoForFastStart_def Let_def
        p_def[symmetric] w1_def w2_def emit_def file_Close_def case_prod_beta)
  show ?thesis
  proof (cases "ioCopy e")
    case (Some err)
    then show ?thesis by (simp add: stageAndRewrite_def emit_def stop')
  next
    case None
    show ?thesis
    proof (cases "ffmpeg e t p")
      case FfmpegOk
      show ?thesis using ok by (simp add: rewritten[OF None FfmpegOk])
    next
      case (FfmpegFailed err left)
      then show ?thesis
        using None
        by (simp add: stageAndRewrite_def processVideoForFastStart_def Let_def
            p_def[symmetric] emit_def file_Close_def stop stop')
    qed
  qed
qed

lemma handlerUploadVideo_run:
  assumes "CHR '','' \<notin> set (s3Bucket cfg)"
  shows "ingest_run cfg e w (snd (handlerUploadVideo cfg e w))"
proof -
  have staged: "ingest_run cfg e w
      (os_Remove t (file_Close t (snd (stageAndRewrite cfg e vid t (os_Create t w)))))" for t vid
    using stageAndRewrite_run[OF assms, of e "os_Create t w" vid t]
    by (rule ingest_run_wrap[where a = "[FileCreated t]" and b = "[FileClosed t, FileRemoved t]"])
      (simp_all add: os_Create_def os_Remove_def file_Close_def emit_def)
  show ?thesis
    by (simp add: handlerUploadVideo_def ingest_run_refl staged case_prod_beta
        split: sum.splits option.splits)
qed

text \<open>
  C5, as amended. In the video ingest pipeline, identifier parsing, bearer-token
  authentication, metadata load and ownership verification all happen before any file I/O:
  if any of them fails, the request aborts and the world is as it was, so no temporary file
  was created and no byte of the upload was staged. The failure is a bad request (400) when
  the identifier does not parse, unauthenticated (401) when the token is missing or
  invalid, and not found (404) when the metadata load fails. When the caller is not the
  owner of the video, the request is refused with an error answer; which status that
  answer carries is not part of this statement.
\<close>

theorem video_checks_precede_file_io:
  "(\<forall>err. uuid_Parse e = Inl err \<longrightarrow>
      handlerUploadVideo cfg e w = (RespondWithError StatusBadRequest ''Invalid ID'' (Some err), w)) \<and>
   (\<forall>videoID err. uuid_Parse e = Inr videoID \<and> GetBearerToken e = Inl err \<longrightarrow>
      handlerUploadVideo cfg e w =
        (RespondWithError StatusUnauthorized ''Couldn't find JWT'' (Some err), w)) \<and>
   (\<forall>videoID token err.
      uuid_Parse e = Inr videoID \<and> GetBearerToken e = Inr token \<and> ValidateJWT e token = Inl err \<longrightarrow>
      handlerUploadVideo cfg e w =
        (RespondWithError StatusUnauthorized ''Couldn't validate JWT'' (Some err), w)) \<and>
   (\<forall>videoID token userID err.
      uuid_Parse e = Inr videoID \<and> GetBearerToken e = Inr token \<and>
      ValidateJWT e token = Inr userID \<and> GetVideo e videoID = Inl err \<longrightarrow>
      handlerUploadVideo cfg e w =
        (RespondWithError StatusNotFound ''Video not found'' (Some err), w)) \<and>
   (\<forall>videoID token userID vid.
      uuid_Parse e = Inr videoID \<and> GetBearerToken e = Inr token \<and>
      ValidateJWT e token = Inr userID \<and> GetVideo e videoID = Inr vid \<and> UserID vid \<noteq> userID \<longrightarrow>
      snd (handlerUploadVideo cfg e w) = w \<and>
      (\<exists>code. fst (handlerUploadVideo cfg e w) =
         RespondWithError code ''User is not the video owner'' None))"
  by (simp add: handlerUploadVideo_def)

text \<open>
  The theorem on five requests, each failing one check: an identifier that does not parse,
  no token, an expired token, no stored video, and the user \<open>bob\<close> on a video of \<open>alice\<close>.
  In each the world after the request is the empty world it started in. The last
  conjunct is the whole answer of the code to \<open>bob\<close>, status included.
\<close>

theorem video_checks_precede_file_io_witness:
  "handlerUploadVideo example_cfg (example_env\<lparr>uuid_Parse := Inl (Err ''invalid UUID length: 3'')\<rparr>)
       empty_world =
     (RespondWithError StatusBadRequest ''Invalid ID'' (Some (Err ''invalid UUID length: 3'')),
      empty_world) \<and>
   handlerUploadVideo example_cfg (example_env\<lparr>GetBearerToken := Inl (Err ''no auth header'')\<rparr>)
       empty_world =
     (RespondWithError StatusUnauthorized ''Couldn't find JWT'' (Some (Err ''no auth header'')),
      empty_world) \<and>
   handlerUploadVideo example_cfg (example_env\<lparr>ValidateJWT := (\<lambda>t. Inl (Err ''token expired''))\<rparr>)
       empty_world =
     (RespondWithError StatusUnauthorized ''Couldn't validate JWT'' (Some (Err ''token expired'')),
      empty_world) \<and>
   handlerUploadVideo example_cfg (example_env\<lparr>GetVideo := (\<lambda>i. Inl (Err ''no rows''))\<rparr>)
       empty_world =
     (RespondWithError StatusNotFound ''Video not found'' (Some (Err ''no rows'')), empty_world) \<and>
   UserID example_video \<noteq> ''bob'' \<and>
   handlerUploadVideo example_cfg (example_env\<lparr>GetBearerToken := Inr ''bob''\<rparr>) empty_world =
     (RespondWithError StatusUnauthorized ''User is not the video owner'' None, empty_world)"
  using
    video_checks_precede_file_io[where cfg = example_cfg and w = empty_world
      and e = "example_env\<lparr>uuid_Parse := Inl (Err ''invalid UUID length: 3'')\<rparr>"]
    video_checks_precede_file_io[where cfg = example_cfg and w = empty_world
      and e = "example_env\<lparr>GetBearerToken := Inl (Err ''no auth header'')\<rparr>"]
    video_checks_precede_file_io[where cfg = example_cfg and w = empty_world
      and e = "example_env\<lparr>ValidateJWT := (\<lambda>t. Inl (Err ''token expired''))\<rparr>"]
    video_checks_precede_file_io[where cfg = example_cfg and w = empty_world
      and e = "example_env\<lparr>GetVideo := (\<lambda>i. Inl (Err ''no rows''))\<rparr>"]
    video_checks_precede_file_io[where cfg = example_cfg and w = empty_world
      and e = "example_env\<lparr>GetBearerToken := Inr ''bob''\<rparr>"]
  by (auto simp: example_env_def example_jwt_def example_db_def example_video_def
      handlerUploadVideo_def)

text \<open>
  C5 as stated, an authorization-class failure whichever check fails, does not hold for the
  first check: an identifier that does not parse is answered with status 400, which is
  neither the status of the authorization category (403) nor that of the authentication
  category (401).
\<close>

theorem invalid_id_not_authorization_counterexample:
  "uuid_Parse (example_env\<lparr>uuid_Parse := Inl (Err ''invalid UUID length: 3'')\<rparr>)
     = Inl (Err ''invalid UUID length: 3'') \<and>
   handlerUploadVideo example_cfg (example_env\<lparr>uuid_Parse := Inl (Err ''invalid UUID length: 3'')\<rparr>)
       empty_world =
     (RespondWithError StatusBadRequest ''Invalid ID'' (Some (Err ''invalid UUID length: 3'')),
      empty_world) \<and>
   \<not> authorization_class StatusBadRequest \<and>
   StatusBadRequest \<noteq> StatusForbidden \<and>
   StatusBadRequest \<noteq> StatusUnauthorized"
  by (simp add: handlerUploadVideo_def authorization_class_def StatusBadRequest_def
      StatusUnauthorized_def StatusForbidden_def)

text \<open>
  The status that \<^verbatim>\<open>handlerUploadVideo\<close> gives a caller who is not the owner
  (part_001, line 51) is 401, the status of a missing token, and not the 403 of the spec's
  authorization category: the defect that C7 reports for the thumbnail handler is in this
  handler too. It is recorded here and is not part of C5 as amended.
\<close>

lemma video_non_owner_status:
  assumes "uuid_Parse e = Inr videoID" "GetBearerToken e = Inr token"
    and "ValidateJWT e token = Inr userID" "GetVideo e videoID = Inr vid"
    and "UserID vid \<noteq> userID"
  shows "fst (handlerUploadVideo cfg e w) =
           RespondWithError StatusUnauthorized ''User is not the video owner'' None"
    and "\<not> authorization_class StatusUnauthorized"
  using assms
  by (simp_all add: handlerUploadVideo_def authorization_class_def StatusUnauthorized_def
      StatusForbidden_def)

text \<open>
  C4 holds on every path but one. Whenever the rewriter does not leave an output file
  behind when it fails, and the temporary names are fresh, the disk after the request is
  the disk before it, whatever the outcome.
\<close>

lemma video_ingest_restores_disk:
  assumes "\<forall>t. CreateTemp e = Inr t \<longrightarrow> t \<notin> disk w \<and> t @ ''.processing'' \<notin> disk w"
    and "\<forall>t err. ffmpeg e t (t @ ''.processing'') \<noteq> FfmpegFailed err True"
  shows "disk (snd (handlerUploadVideo cfg e w)) = disk w"
proof -
  have staged: "disk (os_Remove t (file_Close t (snd (stageAndRewrite cfg e vid t (os_Create t w)))))
      = disk w" if "CreateTemp e = Inr t" for t vid
  proof -
    have f: "t \<notin> disk w" "t @ ''.processing'' \<notin> disk w" using assms(1) that by auto
    have n: "t @ ''.processing'' \<noteq> t" by simp
    show ?thesis
      using f n assms(2)[rule_format, of t]
      by (auto simp: stageAndRewrite_disk os_Remove_def file_Close_def os_Create_def emit_def
          split: option.splits ffmpeg_outcome.splits)
  qed
  show ?thesis
    by (simp add: handlerUploadVideo_def staged case_prod_beta split: sum.splits option.splits)
qed

text \<open>
  C4 on the failing input: the rewriter exits with an error after it has created its output
  file. The handler returns before it registers the removal of that file, so the temporary
  file is removed and the rewriter's output stays on the disk.
\<close>

theorem rewriter_failure_leaves_output:
  "handlerUploadVideo example_cfg (example_env\<lparr>ffmpeg := ffmpeg_fails_leaving_output\<rparr>) empty_world =
     (RespondWithError StatusInternalServerError ''Failed to process video for fast start''
        (Some (Wrap ''ffmpeg faststart failed'' (Err ''exit status 1''))),
      \<lparr>disk = {''/tmp/tubely-upload-1.mp4.processing''},
       trace =
         [FileCreated ''/tmp/tubely-upload-1.mp4'',
          FileWritten ''/tmp/tubely-upload-1.mp4'',
          FileClosed ''/tmp/tubely-upload-1.mp4'',
          FfmpegRun ''/tmp/tubely-upload-1.mp4'' ''/tmp/tubely-upload-1.mp4.processing'',
          FileClosed ''/tmp/tubely-upload-1.mp4'',
          FileRemoved ''/tmp/tubely-upload-1.mp4'']\<rparr>)"
  by (simp add: handlerUploadVideo_def stageAndRewrite_def processVideoForFastStart_def
      example_env_def example_cfg_def example_jwt_def example_db_def example_video_def
      example_media_type_def empty_world_def ffmpeg_fails_leaving_output_def
      os_Create_def os_Remove_def file_Close_def emit_def Let_def insert_Diff_if)

text \<open>
  C9. When the configured bucket name holds no comma, every video record that a video
  ingest hands to the metadata store has as its reference the bucket, one comma, and the key
  \<open>class/randomKey.mp4\<close> under which the file was uploaded, where the class is one of
  landscape, portrait and other and the random key is the URL-safe encoding of the random
  bytes; the reference holds exactly one comma; and resolving that record, in any
  environment, never fails with the format error and requests a presigned URL for exactly
  that bucket and that key.
\<close>

theorem stored_reference_resolves:
  assumes "CHR '','' \<notin> set (s3Bucket cfg)"
    and "UpdateVideo v \<in> set (events_since w (snd (handlerUploadVideo cfg e w)))"
  shows "\<exists>aspectRatio randomBytes key.
           randRead e = Inr randomBytes \<and>
           aspectRatio \<in> {''landscape'', ''portrait'', ''other''} \<and>
           key = aspectRatio @ ''/'' @ EncodeToString randomBytes @ ''.mp4'' \<and>
           VideoURL v = Some (s3Bucket cfg @ '','' @ key) \<and>
           count_list (s3Bucket cfg @ '','' @ key) (CHR '','') = 1 \<and>
           PutObject (s3Bucket cfg) key ''video/mp4''
             \<in> set (events_since w (snd (handlerUploadVideo cfg e w))) \<and>
           (\<forall>e' w'.
              snd (fst (dbVideoToSignedVideo e' v w'))
                \<noteq> Some (Err (''invalid bucket/key format: '' @ s3Bucket cfg @ '','' @ key)) \<and>
              events_since w' (snd (dbVideoToSignedVideo e' v w')) =
                [PresignGetObject (s3Bucket cfg) key (15 * time_Minute)])"
proof -
  obtain evs where t: "trace (snd (handlerUploadVideo cfg e w)) = trace w @ evs"
    and g: "\<forall>v. UpdateVideo v \<in> set evs \<longrightarrow> stored_by_ingest cfg e evs v"
    using handlerUploadVideo_run[OF assms(1), of e w] unfolding ingest_run_def by auto
  have ev: "events_since w (snd (handlerUploadVideo cfg e w)) = evs"
    using t by (rule events_since_run)
  have "stored_by_ingest cfg e evs v" using g assms(2) ev by simp
  then obtain aspectRatio randomBytes where
    b: "randRead e = Inr randomBytes"
    and c: "aspectRatio \<in> {''landscape'', ''portrait'', ''other''}"
    and u: "VideoURL v =
          Some (s3Bucket cfg @ '','' @ aspectRatio @ ''/'' @ EncodeToString randomBytes @ ''.mp4'')"
    and p: "PutObject (s3Bucket cfg) (aspectRatio @ ''/'' @ EncodeToString randomBytes @ ''.mp4'')
          ''video/mp4'' \<in> set evs"
    unfolding stored_by_ingest_def by auto
  define key where "key = aspectRatio @ ''/'' @ EncodeToString randomBytes @ ''.mp4''"
  have nc: "CHR '','' \<notin> set key" unfolding key_def using c by (rule key_no_comma)
  have u': "VideoURL v = Some (s3Bucket cfg @ CHR '','' # key)" using u by (simp add: key_def)
  have cnt: "count_list (s3Bucket cfg @ '','' @ key) (CHR '','') = 1"
    using assms(1) nc by (simp add: count_list_0_iff)
  have res: "snd (fst (dbVideoToSignedVideo e' v w'))
                \<noteq> Some (Err (''invalid bucket/key format: '' @ s3Bucket cfg @ '','' @ key)) \<and>
              events_since w' (snd (dbVideoToSignedVideo e' v w')) =
                [PresignGetObject (s3Bucket cfg) key (15 * time_Minute)]" for e' w'
    unfolding resolve_stored[OF u' assms(1) nc]
    by (simp add: events_since_emit split: sum.splits)
  show ?thesis
    using b c u p cnt res unfolding ev key_def[symmetric]
    by (intro exI[of _ aspectRatio] exI[of _ randomBytes] exI[of _ key]) (simp add: key_def)
qed

text \<open>The run of the example request, in full.\<close>

lemma example_ingest:
  "handlerUploadVideo example_cfg example_env empty_world =
     (RespondWithJSON StatusOK
        (example_video
           \<lparr>UpdatedAt := 1700000000,
            VideoURL := Some (''https://tubely-bucket.s3.amazonaws.com/'' @
              ''landscape/AAAAAAAAAAAAAAAAAAAAAAAAAAAAAAAAAAAAAAAAAAA.mp4'' @ ''?X-Amz-Expires=900'')\<rparr>),
      \<lparr>disk = {},
       trace =
         [FileCreated ''/tmp/tubely-upload-1.mp4'',
          FileWritten ''/tmp/tubely-upload-1.mp4'',
          FileClosed ''/tmp/tubely-upload-1.mp4'',
          FfmpegRun ''/tmp/tubely-upload-1.mp4'' ''/tmp/tubely-upload-1.mp4.processing'',
          FileOpened ''/tmp/tubely-upload-1.mp4.processing'',
          SeekStart ''/tmp/tubely-upload-1.mp4.processing'',
          PutObject ''tubely-bucket'' ''landscape/AAAAAAAAAAAAAAAAAAAAAAAAAAAAAAAAAAAAAAAAAAA.mp4''
            ''video/mp4'',
          UpdateVideo
            (example_video
               \<lparr>UpdatedAt := 1700000000,
                VideoURL := Some ''tubely-bucket,landscape/AAAAAAAAAAAAAAAAAAAAAAAAAAAAAAAAAAAAAAAAAAA.mp4''\<rparr>),
          PresignGetObject ''tubely-bucket''
            ''landscape/AAAAAAAAAAAAAAAAAAAAAAAAAAAAAAAAAAAAAAAAAAA.mp4'' (15 * time_Minute),
          FileClosed ''/tmp/tubely-upload-1.mp4.processing'',
          FileRemoved ''/tmp/tubely-upload-1.mp4.processing'',
          FileClosed ''/tmp/tubely-upload-1.mp4'',
          FileRemoved ''/tmp/tubely-upload-1.mp4'']\<rparr>)"
proof -
  have p: "strings_Split ''tubely-bucket,landscape/AAAAAAAAAAAAAAAAAAAAAAAAAAAAAAAAAAAAAAAAAAA.mp4''
      (CHR '','') = [''tubely-bucket'', ''landscape/AAAAAAAAAAAAAAAAAAAAAAAAAAAAAAAAAAAAAAAAAAA.mp4'']"
    using split_bucket_key[of "''tubely-bucket''"
        "''landscape/AAAAAAAAAAAAAAAAAAAAAAAAAAAAAAAAAAAAAAAAAAA.mp4''"] by simp
  show ?thesis
    by (simp add: handlerUploadVideo_def stageAndRewrite_def processVideoForFastStart_def
        openProcessed_def uploadProcessed_def publishVideo_def dbVideoToSignedVideo_def
        generatePresignedURL_def p uploadLoop_first
        example_cfg_def example_env_def example_jwt_def example_db_def example_video_def
        example_media_type_def empty_world_def ffmpeg_ok_def always_ok_def example_presign_def
        example_probe_landscape example_random_string
        os_Create_def os_Remove_def file_Close_def emit_def Let_def insert_Diff_if
        del: One_nat_def)
qed

text \<open>
  The theorem on the example request: the record written has the reference
  \<open>tubely-bucket,landscape/AAA...A.mp4\<close>, and resolving it asks for that bucket and key.
\<close>

theorem stored_reference_resolves_witness:
  "CHR '','' \<notin> set (s3Bucket example_cfg) \<and>
   UpdateVideo
     (example_video
        \<lparr>UpdatedAt := 1700000000,
         VideoURL := Some ''tubely-bucket,landscape/AAAAAAAAAAAAAAAAAAAAAAAAAAAAAAAAAAAAAAAAAAA.mp4''\<rparr>)
     \<in> set (events_since empty_world (snd (handlerUploadVideo example_cfg example_env empty_world))) \<and>
   count_list ''tubely-bucket,landscape/AAAAAAAAAAAAAAAAAAAAAAAAAAAAAAAAAAAAAAAAAAA.mp4'' (CHR '','') = 1 \<and>
   events_since empty_world
       (snd (dbVideoToSignedVideo example_env
          (example_video
             \<lparr>UpdatedAt := 1700000000,
              VideoURL := Some ''tubely-bucket,landscape/AAAAAAAAAAAAAAAAAAAAAAAAAAAAAAAAAAAAAAAAAAA.mp4''\<rparr>)
          empty_world)) =
     [PresignGetObject ''tubely-bucket'' ''landscape/AAAAAAAAAAAAAAAAAAAAAAAAAAAAAAAAAAAAAAAAAAA.mp4''
        (15 * time_Minute)]"
proof -
  define v where "v = example_video
        \<lparr>UpdatedAt := 1700000000,
         VideoURL := Some ''tubely-bucket,landscape/AAAAAAAAAAAAAAAAAAAAAAAAAAAAAAAAAAAAAAAAAAA.mp4''\<rparr>"
  have h1: "CHR '','' \<notin> set (s3Bucket example_cfg)" by (simp add: example_cfg_def)
  have h2: "UpdateVideo v
     \<in> set (events_since empty_world (snd (handlerUploadVideo example_cfg example_env empty_world)))"
    unfolding example_ingest by (simp add: events_since_def empty_world_def v_def)
  obtain key where
    u: "VideoURL v = Some (s3Bucket example_cfg @ '','' @ key)"
    and c: "count_list (s3Bucket example_cfg @ '','' @ key) (CHR '','') = 1"
    and r: "events_since empty_world (snd (dbVideoToSignedVideo example_env v empty_world)) =
                [PresignGetObject (s3Bucket example_cfg) key (15 * time_Minute)]"
    using stored_reference_resolves[OF h1 h2] by blast
  have key: "key = ''landscape/AAAAAAAAAAAAAAAAAAAAAAAAAAAAAAAAAAAAAAAAAAA.mp4''"
    using u by (simp add: v_def example_cfg_def)
  show ?thesis
    using h1 h2 c r unfolding key v_def by (simp add: example_cfg_def)
qed

section \<open>Claims about the thumbnail ingest\<close>

lemma example_png_name:
  "EncodeToString (replicate 32 0) @ getFileExtension ''image/png''
     = ''AAAAAAAAAAAAAAAAAAAAAAAAAAAAAAAAAAAAAAAAAAA.png''"
  by (simp add: example_random_string getFileExtension_def)

text \<open>
  The path of the example thumbnail: the asset directory \<open>./assets\<close> is cleaned to
  \<open>assets\<close> when the file name is joined to it.
\<close>

lemma example_thumbnail_path:
  "filepath_Join ''./assets'' ''AAAAAAAAAAAAAAAAAAAAAAAAAAAAAAAAAAAAAAAAAAA.png''
     = ''assets/AAAAAAAAAAAAAAAAAAAAAAAAAAAAAAAAAAAAAAAAAAA.png''"
  by code_simp

lemma filepath_Clean_examples:
  "filepath_Clean ''a//b/./c/..'' = ''a/b''"
  "filepath_Clean ''/../a/../b'' = ''/b''"
  "filepath_Clean ''../../a'' = ''../../a''"
  "filepath_Clean ''a/..'' = ''.''"
  "filepath_Clean ''/'' = ''/''"
  "filepath_Clean [] = ''.''"
  by code_simp+

text \<open>
  C7 on the failing input: the user \<open>bob\<close>, with a valid token, uploads a PNG thumbnail
  for a video of \<open>alice\<close>. The handler answers with status 401, the status it also gives
  for a missing or invalid token, and not with 403; the file is on the disk by then. The
  deletion handler refuses the same user on the same video with status 403.
\<close>

theorem thumbnail_non_owner_answer:
  "handlerUploadThumbnail example_cfg
       (example_env\<lparr>GetBearerToken := Inr ''bob'', FormFile := Inr ''image/png''\<rparr>) empty_world =
     (RespondWithError StatusUnauthorized ''User is not the video owner'' None,
      \<lparr>disk = {''assets/AAAAAAAAAAAAAAAAAAAAAAAAAAAAAAAAAAAAAAAAAAA.png''},
       trace =
         [FileCreated ''assets/AAAAAAAAAAAAAAAAAAAAAAAAAAAAAAAAAAAAAAAAAAA.png'',
          FileWritten ''assets/AAAAAAAAAAAAAAAAAAAAAAAAAAAAAAAAAAAAAAAAAAA.png'',
          FileClosed ''assets/AAAAAAAAAAAAAAAAAAAAAAAAAAAAAAAAAAAAAAAAAAA.png'']\<rparr>) \<and>
   StatusUnauthorized \<noteq> StatusForbidden \<and>
   handlerVideoMetaDelete example_cfg (example_env\<lparr>GetBearerToken := Inr ''bob''\<rparr>) empty_world =
     (RespondWithError StatusForbidden ''You can't delete this video'' None, empty_world)"
  by (simp add: handlerUploadThumbnail_def thumbnailPublish_def handlerVideoMetaDelete_def
      example_env_def example_cfg_def
      example_jwt_def example_db_def example_video_def example_media_type_def empty_world_def
      example_png_name example_thumbnail_path os_Create_def file_Close_def emit_def Let_def
      StatusUnauthorized_def StatusForbidden_def)

end
